theory Spec2Isabelle
  imports Complex_Main
begin

section \<open>Strings and identifiers\<close>

text \<open>
  A string is the list of the bytes of its UTF-8 form. Every handler that takes a path
  identifier tests it against the same regular expression,
  \<^verbatim>\<open>/^[0-9a-f]{8}-[0-9a-f]{4}-[0-9a-f]{4}-[0-9a-f]{4}-[0-9a-f]{12}$/i\<close>:
  36 characters, hyphens at positions 8, 13, 18 and 23, hexadecimal digits of either case
  elsewhere.
\<close>

definition is_hex :: "char \<Rightarrow> bool" where
  "is_hex c \<longleftrightarrow> c \<in> set ''0123456789abcdefABCDEF''"

definition uuidRegex_test :: "string \<Rightarrow> bool" where
  "uuidRegex_test s \<longleftrightarrow>
     length s = 36 \<and>
     list_all is_hex (take 8 s) \<and> s ! 8 = CHR ''-'' \<and>
     list_all is_hex (take 4 (drop 9 s)) \<and> s ! 13 = CHR ''-'' \<and>
     list_all is_hex (take 4 (drop 14 s)) \<and> s ! 18 = CHR ''-'' \<and>
     list_all is_hex (take 4 (drop 19 s)) \<and> s ! 23 = CHR ''-'' \<and>
     list_all is_hex (drop 24 s)"

text \<open>
  \<^verbatim>\<open>String.prototype.trim\<close> removes white space and line terminators from both ends:
  the six ASCII ones (tab, line feed, vertical tab, form feed, carriage return, space),
  U+00A0 (two bytes), and U+1680, U+2000 to U+200A, U+2028, U+2029, U+202F, U+205F, U+3000
  and U+FEFF (three bytes each). \<open>strip\<close> removes them from the front of a string, or,
  with the flag set, from the front of a reversed string.
\<close>

definition ws1 :: "char \<Rightarrow> bool" where
  "ws1 a \<longleftrightarrow> a \<in> set [CHR 0x09, CHR 0x0A, CHR 0x0B, CHR 0x0C, CHR 0x0D, CHR 0x20]"

definition ws2 :: "char \<Rightarrow> char \<Rightarrow> bool" where
  "ws2 a b \<longleftrightarrow> a = CHR 0xC2 \<and> b = CHR 0xA0"

definition ws3 :: "char \<Rightarrow> char \<Rightarrow> char \<Rightarrow> bool" where
  "ws3 a b c \<longleftrightarrow>
     (a = CHR 0xE1 \<and> b = CHR 0x9A \<and> c = CHR 0x80) \<or>
     (a = CHR 0xE2 \<and> b = CHR 0x80 \<and>
        c \<in> set [CHR 0x80, CHR 0x81, CHR 0x82, CHR 0x83, CHR 0x84, CHR 0x85, CHR 0x86, CHR 0x87,
                  CHR 0x88, CHR 0x89, CHR 0x8A, CHR 0xA8, CHR 0xA9, CHR 0xAF]) \<or>
     (a = CHR 0xE2 \<and> b = CHR 0x81 \<and> c = CHR 0x9F) \<or>
     (a = CHR 0xE3 \<and> b = CHR 0x80 \<and> c = CHR 0x80) \<or>
     (a = CHR 0xEF \<and> b = CHR 0xBB \<and> c = CHR 0xBF)"

fun strip :: "bool \<Rightarrow> string \<Rightarrow> string" where
  "strip reversed (a # b # c # s) =
     (if ws1 a then strip reversed (b # c # s)
      else if (if reversed then ws2 b a else ws2 a b) then strip reversed (c # s)
      else if (if reversed then ws3 c b a else ws3 a b c) then strip reversed s
      else a # b # c # s)"
| "strip reversed [a, b] =
     (if ws1 a then strip reversed [b]
      else if (if reversed then ws2 b a else ws2 a b) then []
      else [a, b])"
| "strip reversed [a] = (if ws1 a then [] else [a])"
| "strip reversed [] = []"

definition trim :: "string \<Rightarrow> string" where
  "trim s = rev (strip True (rev (strip False s)))"

text \<open>
  \<^verbatim>\<open>toLowerCase\<close> on the ASCII letters. No other character becomes one of the letters
  of \<^verbatim>\<open>unassigned\<close>, so the comparison with the two keywords of the asset filter is the
  one the code makes.
\<close>

definition lower_char :: "char \<Rightarrow> char" where
  "lower_char c =
     (case map_of (zip ''ABCDEFGHIJKLMNOPQRSTUVWXYZ'' ''abcdefghijklmnopqrstuvwxyz'') c of
        Some d \<Rightarrow> d
      | None \<Rightarrow> c)"

definition toLowerCase :: "string \<Rightarrow> string" where
  "toLowerCase s = map lower_char s"

text \<open>
  The store's \<^verbatim>\<open>ILIKE\<close>: \<^verbatim>\<open>%\<close> matches any run of characters, \<^verbatim>\<open>_\<close> any one
  character, a backslash takes the next pattern character literally, and letters match
  without regard to case. A pattern that ends in a lone backslash matches nothing here.
\<close>

fun like :: "string \<Rightarrow> string \<Rightarrow> bool" where
  "like [] s = (s = [])"
| "like (p # ps) [] = (p = CHR ''%'' \<and> like ps [])"
| "like (p # ps) (c # cs) =
     (if p = CHR ''%'' then like ps (c # cs) \<or> like (p # ps) cs
      else if p = CHR ''_'' then like ps cs
      else if p = CHR 0x5C then (case ps of [] \<Rightarrow> False | q # qs \<Rightarrow> q = c \<and> like qs cs)
      else p = c \<and> like ps cs)"

definition ilike :: "string \<Rightarrow> string \<Rightarrow> bool" where
  "ilike column pattern = like (toLowerCase pattern) (toLowerCase column)"

text \<open>
  The identifier columns have the store's type \<^verbatim>\<open>uuid\<close>. A string that is compared with
  such a column, or written to it, is first read as a uuid: an optional pair of braces
  around eight groups of four hexadecimal digits, each group but the last optionally
  followed by a hyphen. A string that cannot be read makes the statement fail. The result
  is the text the store gives back for the value: lower case, hyphens after 8, 12, 16 and
  20 digits. Stored identifiers are such texts, so a column equals a parameter when it is
  the text the parameter is read as.
\<close>

fun uuid_groups :: "nat \<Rightarrow> string \<Rightarrow> (string \<times> string) option" where
  "uuid_groups 0 s = Some ([], s)"
| "uuid_groups (Suc k) (a # b # c # d # rest) =
     (if is_hex a \<and> is_hex b \<and> is_hex c \<and> is_hex d
      then case uuid_groups k (case rest of
                                 [] \<Rightarrow> rest
                               | h # r \<Rightarrow> if h = CHR ''-'' \<and> k \<noteq> 0 then r else rest) of
             None \<Rightarrow> None
           | Some (digits, left) \<Rightarrow> Some (a # b # c # d # digits, left)
      else None)"
| "uuid_groups (Suc k) s = None"

definition store_uuid :: "string \<Rightarrow> string option" where
  "store_uuid s =
     (let braces = (case s of [] \<Rightarrow> False | h # _ \<Rightarrow> h = CHR ''{'')
      in case uuid_groups 8 (if braces then tl s else s) of
           None \<Rightarrow> None
         | Some (digits, left) \<Rightarrow>
             if left = (if braces then ''}'' else [])
             then Some (toLowerCase
                          (take 8 digits @ ''-'' @ take 4 (drop 8 digits) @ ''-'' @
                           take 4 (drop 12 digits) @ ''-'' @ take 4 (drop 16 digits) @ ''-'' @
                           drop 20 digits))
             else None)"

section \<open>Numbers\<close>

text \<open>
  The numbers of the list handlers are JavaScript numbers that hold integers: a double is
  given by the integer it stands for, besides NaN and the two infinities. An integer of
  magnitude up to \<open>2\<^sup>5\<^sup>3\<close> is a double; a larger one is rounded to the nearest double, to
  the even one of two nearest.
\<close>

datatype number = NaN | Infinity | NegInfinity | Finite int

function bit_length :: "int \<Rightarrow> nat" where
  "bit_length n = (if n \<le> 0 then 0 else Suc (bit_length (n div 2)))"
  by pat_completeness auto
termination
  by (relation "measure nat") auto

declare bit_length.simps [simp del]

definition round_double :: "int \<Rightarrow> number" where
  "round_double i =
     (let n = \<bar>i\<bar>
      in if n \<le> 2 ^ 53 then Finite i
         else
           let q = 2 ^ (bit_length n - 53);
               lo = n div q;
               m = (if 2 * (n mod q) < q \<or> (2 * (n mod q) = q \<and> even lo) then lo * q
                    else (lo + 1) * q)
           in if 2 ^ 1024 \<le> m then (if i < 0 then NegInfinity else Infinity)
              else Finite (if i < 0 then - m else m))"

text \<open>
  \<^verbatim>\<open>parseInt\<close> without a radix skips leading white space, reads a sign, reads
  hexadecimal after \<^verbatim>\<open>0x\<close> and decimal otherwise, stops at the first character that is
  not a digit, and is NaN when it read no digit.
\<close>

definition digit_value :: "char \<Rightarrow> int option" where
  "digit_value c =
     map_of (zip ''0123456789abcdefABCDEF''
                 [0, 1, 2, 3, 4, 5, 6, 7, 8, 9, 10, 11, 12, 13, 14, 15, 10, 11, 12, 13, 14, 15]) c"

definition is_digit :: "int \<Rightarrow> char \<Rightarrow> bool" where
  "is_digit radix c = (case digit_value c of None \<Rightarrow> False | Some v \<Rightarrow> v < radix)"

definition digits_value :: "int \<Rightarrow> string \<Rightarrow> int" where
  "digits_value radix ds =
     foldl (\<lambda>acc c. acc * radix + (case digit_value c of None \<Rightarrow> 0 | Some v \<Rightarrow> v)) 0 ds"

definition parseInt :: "string \<Rightarrow> number" where
  "parseInt s =
     (let s1 = strip False s;
          (neg, s2) = (case s1 of
                         c # r \<Rightarrow> if c = CHR ''-'' then (True, r)
                                  else if c = CHR ''+'' then (False, r) else (False, s1)
                       | [] \<Rightarrow> (False, s1));
          (radix, s3) = (case s2 of
                           a # b # r \<Rightarrow> if a = CHR ''0'' \<and> (b = CHR ''x'' \<or> b = CHR ''X'')
                                        then (16, r) else (10, s2)
                         | _ \<Rightarrow> (10, s2));
          ds = takeWhile (is_digit radix) s3
      in if ds = [] then NaN
         else round_double (if neg then - digits_value radix ds else digits_value radix ds))"

text \<open>The arithmetic of the list handlers: \<^verbatim>\<open>page - 1\<close>, the product with the limit, and
  \<^verbatim>\<open>Math.ceil(total / limit)\<close> for a count of rows below \<open>2\<^sup>5\<^sup>3\<close>.\<close>

definition js_minus_one :: "number \<Rightarrow> number" where
  "js_minus_one x = (case x of Finite i \<Rightarrow> round_double (i - 1) | _ \<Rightarrow> x)"

definition signed_infinity :: "int \<Rightarrow> number" where
  "signed_infinity i = (if i = 0 then NaN else if 0 < i then Infinity else NegInfinity)"

definition js_times :: "number \<Rightarrow> number \<Rightarrow> number" where
  "js_times x y =
     (case x of
        NaN \<Rightarrow> NaN
      | Finite i \<Rightarrow>
          (case y of NaN \<Rightarrow> NaN | Finite j \<Rightarrow> round_double (i * j)
           | Infinity \<Rightarrow> signed_infinity i | NegInfinity \<Rightarrow> signed_infinity (- i))
      | Infinity \<Rightarrow>
          (case y of NaN \<Rightarrow> NaN | Finite j \<Rightarrow> signed_infinity j
           | Infinity \<Rightarrow> Infinity | NegInfinity \<Rightarrow> NegInfinity)
      | NegInfinity \<Rightarrow>
          (case y of NaN \<Rightarrow> NaN | Finite j \<Rightarrow> signed_infinity (- j)
           | Infinity \<Rightarrow> NegInfinity | NegInfinity \<Rightarrow> Infinity))"

definition page_count :: "nat \<Rightarrow> number \<Rightarrow> number" where
  "page_count n limit =
     (case limit of
        NaN \<Rightarrow> NaN
      | Finite l \<Rightarrow> if l = 0 then (if n = 0 then NaN else Infinity)
                    else Finite \<lceil>real n / real_of_int l\<rceil>
      | _ \<Rightarrow> Finite 0)"

section \<open>The entity store\<close>

text \<open>
  The four tables of \<^verbatim>\<open>db/schema.ts\<close>. Timestamps are milliseconds since the epoch,
  a nullable column is an \<^typ>\<open>'a option\<close>, a status column is the text the table stores,
  an identifier column holds the text of a uuid.
\<close>

type_synonym timestamp = int

record asset =
  a_id :: string
  a_name :: string
  a_description :: string
  a_taxDecNo :: string
  a_declaredOwner :: string
  a_marketValue :: string
  a_assessedValue :: string
  a_carStatus :: "string option"
  a_lat :: real
  a_lng :: real
  a_status :: string
  a_address :: string
  a_taxDeclarationNo :: string
  a_tctNo :: string
  a_areaPerSqM :: string
  a_locationOfPropery :: string
  a_barangay :: string
  a_bidder :: string
  a_auctionDate :: timestamp
  a_dateOfCertificationOfSale :: timestamp
  a_entryNo :: string
  a_detailsShortUpdateLog :: string
  a_createdAt :: timestamp
  a_updatedAt :: timestamp

record project =
  p_id :: string
  p_name :: string
  p_description :: "string option"
  p_status :: string
  p_assetId :: "string option"
  p_startDate :: "timestamp option"
  p_endDate :: "timestamp option"
  p_assignedAt :: "timestamp option"
  p_createdAt :: timestamp
  p_updatedAt :: timestamp

record case_status =
  c_id :: string
  c_rtc :: string
  c_case_no :: string
  c_lastUpdatedAt :: timestamp
  c_details :: "string option"
  c_judge :: "string option"
  c_assetId :: "string option"
  c_projectId :: "string option"

record note_row =
  n_id :: string
  n_content :: string
  n_assetId :: "string option"
  n_projectId :: "string option"
  n_caseId :: "string option"
  n_createdAt :: timestamp
  n_updatedAt :: timestamp

record db =
  db_assets :: "asset list"
  db_projects :: "project list"
  db_cases :: "case_status list"
  db_notes :: "note_row list"

text \<open>
  A JSON response: the \<^verbatim>\<open>success: true\<close> body with its HTTP status and data, or the
  \<^verbatim>\<open>success: false\<close> body with its status, error text and details.
\<close>

datatype ('a, 'e) response = Success nat 'a | Failure nat string "'e list"

text \<open>
  Statements: a select with a row predicate, and an update with \<^verbatim>\<open>.returning()\<close>,
  which yields the rows it changed.
\<close>

definition select_where :: "('r \<Rightarrow> bool) \<Rightarrow> 'r list \<Rightarrow> 'r list" where
  "select_where c rows = filter c rows"

definition update_projects :: "(project \<Rightarrow> bool) \<Rightarrow> (project \<Rightarrow> project) \<Rightarrow> db \<Rightarrow> project list \<times> db" where
  "update_projects c f d =
     (map f (filter c (db_projects d)),
      d\<lparr>db_projects := map (\<lambda>p. if c p then f p else p) (db_projects d)\<rparr>)"

definition first_row :: "'r list \<Rightarrow> 'r option" where
  "first_row rows = (case rows of [] \<Rightarrow> None | r # _ \<Rightarrow> Some r)"

text \<open>
  Deleting rows fires the foreign keys of \<^verbatim>\<open>db/schema.ts\<close>, all declared
  \<^verbatim>\<open>onDelete: "set null"\<close>: a row that references a deleted row keeps everything but
  that reference. The statement returns the rows it deleted.
\<close>

definition refers_to :: "string list \<Rightarrow> string option \<Rightarrow> bool" where
  "refers_to ids r = (case r of None \<Rightarrow> False | Some i \<Rightarrow> i \<in> set ids)"

definition delete_assets :: "(asset \<Rightarrow> bool) \<Rightarrow> db \<Rightarrow> asset list \<times> db" where
  "delete_assets c d =
     (let gone = filter c (db_assets d); ids = map a_id gone
      in (gone,
          d\<lparr>db_assets := filter (\<lambda>a. \<not> c a) (db_assets d),
            db_projects := map (\<lambda>p. if refers_to ids (p_assetId p) then p\<lparr>p_assetId := None\<rparr> else p)
                             (db_projects d),
            db_cases := map (\<lambda>c. if refers_to ids (c_assetId c) then c\<lparr>c_assetId := None\<rparr> else c)
                          (db_cases d),
            db_notes := map (\<lambda>n. if refers_to ids (n_assetId n) then n\<lparr>n_assetId := None\<rparr> else n)
                          (db_notes d)\<rparr>))"

definition delete_projects :: "(project \<Rightarrow> bool) \<Rightarrow> db \<Rightarrow> project list \<times> db" where
  "delete_projects c d =
     (let gone = filter c (db_projects d); ids = map p_id gone
      in (gone,
          d\<lparr>db_projects := filter (\<lambda>p. \<not> c p) (db_projects d),
            db_cases := map (\<lambda>c. if refers_to ids (c_projectId c) then c\<lparr>c_projectId := None\<rparr> else c)
                          (db_cases d),
            db_notes := map (\<lambda>n. if refers_to ids (n_projectId n) then n\<lparr>n_projectId := None\<rparr> else n)
                          (db_notes d)\<rparr>))"

definition delete_cases :: "(case_status \<Rightarrow> bool) \<Rightarrow> db \<Rightarrow> case_status list \<times> db" where
  "delete_cases c d =
     (let gone = filter c (db_cases d); ids = map c_id gone
      in (gone,
          d\<lparr>db_cases := filter (\<lambda>r. \<not> c r) (db_cases d),
            db_notes := map (\<lambda>n. if refers_to ids (n_caseId n) then n\<lparr>n_caseId := None\<rparr> else n)
                          (db_notes d)\<rparr>))"

text \<open>
  A reference that a statement writes: null, or a string that the store reads as a uuid.
  \<open>None\<close> stands for a string the store cannot read, on which the statement fails.
\<close>

definition read_reference :: "string option \<Rightarrow> string option option" where
  "read_reference v =
     (case v of
        None \<Rightarrow> Some None
      | Some s \<Rightarrow> (case store_uuid s of None \<Rightarrow> None | Some u \<Rightarrow> Some (Some u)))"

definition names_row :: "string option \<Rightarrow> string list \<Rightarrow> bool" where
  "names_row r ids = (case r of None \<Rightarrow> True | Some u \<Rightarrow> u \<in> set ids)"

section \<open>Assigning and unassigning a project\<close>

text \<open>
  \<^verbatim>\<open>PUT /api/assets/[id]/projects/[projectId]\<close>: both identifiers are checked, both
  rows are looked up, then the project's asset reference and assignment time are set.
  \<open>now\<close> is the clock reading of the request.
\<close>

definition assign_PUT ::
  "timestamp \<Rightarrow> string \<Rightarrow> string \<Rightarrow> db \<Rightarrow> (project option \<times> asset option, string) response \<times> db" where
  "assign_PUT now assetId projectId d =
     (if \<not> uuidRegex_test assetId \<or> \<not> uuidRegex_test projectId
      then (Failure 400 ''Invalid ID format'' [], d)
      else case store_uuid assetId of
        None \<Rightarrow> (Failure 500 ''Failed to assign project to asset'' [], d)
      | Some ua \<Rightarrow>
          (case first_row (select_where (\<lambda>a. a_id a = ua) (db_assets d)) of
             None \<Rightarrow> (Failure 404 ''Asset not found'' [], d)
           | Some asset \<Rightarrow>
               (case store_uuid projectId of
                  None \<Rightarrow> (Failure 500 ''Failed to assign project to asset'' [], d)
                | Some up \<Rightarrow>
                    (case first_row (select_where (\<lambda>p. p_id p = up) (db_projects d)) of
                       None \<Rightarrow> (Failure 404 ''Project not found'' [], d)
                     | Some _ \<Rightarrow>
                         (let (rows, d') =
                                update_projects (\<lambda>p. p_id p = up)
                                  (\<lambda>p. p\<lparr>p_assetId := Some ua, p_assignedAt := Some now,
                                          p_updatedAt := now\<rparr>) d
                          in (Success 200 (first_row rows, Some asset), d'))))))"

text \<open>
  \<^verbatim>\<open>DELETE /api/assets/[id]/projects/[projectId]\<close>: the project must be found with
  this asset as its reference; a null reference equals no identifier.
\<close>

definition unassign_DELETE ::
  "timestamp \<Rightarrow> string \<Rightarrow> string \<Rightarrow> db \<Rightarrow> (project option \<times> asset option, string) response \<times> db" where
  "unassign_DELETE now assetId projectId d =
     (if \<not> uuidRegex_test assetId \<or> \<not> uuidRegex_test projectId
      then (Failure 400 ''Invalid ID format'' [], d)
      else case (store_uuid projectId, store_uuid assetId) of
        (Some up, Some ua) \<Rightarrow>
          (case first_row (select_where (\<lambda>p. p_id p = up \<and> p_assetId p = Some ua) (db_projects d)) of
             None \<Rightarrow> (Failure 404 ''Project not found or not assigned to this asset'' [], d)
           | Some _ \<Rightarrow>
               (let (rows, d') =
                      update_projects (\<lambda>p. p_id p = up)
                        (\<lambda>p. p\<lparr>p_assetId := None, p_assignedAt := None, p_updatedAt := now\<rparr>) d
                in (Success 200 (first_row rows, None), d')))
      | _ \<Rightarrow> (Failure 500 ''Failed to unassign project from asset'' [], d))"

section \<open>Deleting an asset\<close>

text \<open>
  \<^verbatim>\<open>DELETE /api/assets/[id]\<close> issues two statements one after the other, with no
  transaction around them: first the update that unlinks the projects, then the delete.
  Either \<^verbatim>\<open>await\<close> may throw; the \<^verbatim>\<open>catch\<close> block answers 500 and undoes nothing.
  \<open>fails n\<close> says that statement \<open>n\<close> of the request throws; a statement that throws
  changes nothing itself.
\<close>

definition asset_DELETE :: "(nat \<Rightarrow> bool) \<Rightarrow> string \<Rightarrow> db \<Rightarrow> (asset, string) response \<times> db" where
  "asset_DELETE fails ident d =
     (if \<not> uuidRegex_test ident then (Failure 400 ''Invalid asset ID format'' [], d)
      else case store_uuid ident of
        None \<Rightarrow> (Failure 500 ''Failed to delete asset'' [], d)
      | Some u \<Rightarrow>
          if fails 0 then (Failure 500 ''Failed to delete asset'' [], d)
          else
            let (_, d1) = update_projects (\<lambda>p. p_assetId p = Some u)
                            (\<lambda>p. p\<lparr>p_assetId := None, p_assignedAt := None\<rparr>) d
            in if fails 1 then (Failure 500 ''Failed to delete asset'' [], d1)
               else
                 let (rows, d2) = delete_assets (\<lambda>a. a_id a = u) d1
                 in case first_row rows of
                      None \<Rightarrow> (Failure 404 ''Asset not found'' [], d2)
                    | Some deletedAsset \<Rightarrow> (Success 200 deletedAsset, d2))"

section \<open>List requests\<close>

text \<open>
  A query parameter is absent (\<^verbatim>\<open>searchParams.get\<close> returns null) or a string; the
  handlers read \<^verbatim>\<open>get(...) || default\<close>.
\<close>

definition or_default :: "string option \<Rightarrow> string \<Rightarrow> string" where
  "or_default v dflt = (case v of None \<Rightarrow> dflt | Some s \<Rightarrow> if s = [] then dflt else s)"

text \<open>
  A join row pairs a project with the asset its reference names, or with null when there is
  none (\<^verbatim>\<open>leftJoin(assets, eq(projects.assetId, assets.id))\<close>).
\<close>

definition left_join_assets :: "db \<Rightarrow> (project \<times> asset option) list" where
  "left_join_assets d =
     concat (map (\<lambda>p. case filter (\<lambda>a. p_assetId p = Some (a_id a)) (db_assets d) of
                         [] \<Rightarrow> [(p, None)]
                       | as \<Rightarrow> map (\<lambda>a. (p, Some a)) as)
                 (db_projects d))"

record 'a listing =
  l_data :: "'a list"
  l_page :: number
  l_limit :: number
  l_total :: nat
  l_pages :: number

text \<open>
  The tail both list handlers share: order by creation time, newest first (rows of equal
  time keep the order of the table), cut the page out, count. The query builder writes a
  \<^verbatim>\<open>LIMIT\<close> only for a limit that is a number of at least 0, and an \<^verbatim>\<open>OFFSET\<close> only
  for an offset that is not 0 or NaN. The store takes both as 64-bit integers that are
  not negative, and fails on anything else, which the handler turns into a 500. A number
  that is not finite goes into the JSON answer as null.
\<close>

definition limit_rows :: "number \<Rightarrow> nat option option" where
  "limit_rows limit =
     (case limit of
        Finite n \<Rightarrow> if n < 0 then Some None else if n < 2 ^ 63 then Some (Some (nat n)) else None
      | Infinity \<Rightarrow> None
      | _ \<Rightarrow> Some None)"

definition offset_rows :: "number \<Rightarrow> nat option option" where
  "offset_rows offset =
     (case offset of
        NaN \<Rightarrow> Some None
      | Finite n \<Rightarrow> if n = 0 then Some None
                    else if 0 < n \<and> n < 2 ^ 63 then Some (Some (nat n)) else None
      | _ \<Rightarrow> None)"

definition paginate ::
  "string \<Rightarrow> ('r \<Rightarrow> timestamp) \<Rightarrow> number \<Rightarrow> number \<Rightarrow> 'r list \<Rightarrow> ('r listing, string) response" where
  "paginate err createdAt page limit matching =
     (let offset = js_times (js_minus_one page) limit
      in case limit_rows limit of
           None \<Rightarrow> Failure 500 err []
         | Some lmt \<Rightarrow>
             (case offset_rows offset of
                None \<Rightarrow> Failure 500 err []
              | Some skip \<Rightarrow>
                  Success 200
                    \<lparr>l_data = (case lmt of None \<Rightarrow> (\<lambda>rows. rows) | Some n \<Rightarrow> take n)
                                 ((case skip of None \<Rightarrow> (\<lambda>rows. rows) | Some k \<Rightarrow> drop k)
                                    (sort_key (\<lambda>r. - createdAt r) matching)),
                     l_page = page, l_limit = limit, l_total = length matching,
                     l_pages = page_count (length matching) limit\<rparr>))"

text \<open>
  \<^verbatim>\<open>GET /api/projects\<close>. The conditions are pushed in the order status, assetId,
  search, and joined with \<^verbatim>\<open>and\<close>. A null column makes a comparison null, which
  selects nothing. A filter value that is neither keyword is compared with the asset
  reference, so the store has to read it as a uuid: \<open>None\<close> stands for the conditions of
  a query that fails.
\<close>

definition asset_filter :: "string \<Rightarrow> ((project \<times> asset option) \<Rightarrow> bool) list option" where
  "asset_filter assetId =
     (let normalizedAssetFilter = trim assetId
      in if normalizedAssetFilter = [] then Some []
         else
           let normalizedLower = toLowerCase normalizedAssetFilter
           in if normalizedLower = ''unassigned'' then Some [\<lambda>(p, a). p_assetId p = None]
              else if normalizedLower = ''assigned'' then Some [\<lambda>(p, a). p_assetId p \<noteq> None]
              else case store_uuid normalizedAssetFilter of
                     None \<Rightarrow> None
                   | Some u \<Rightarrow>
                       Some [\<lambda>(p, a). p_assetId p = Some u \<or>
                               (case a of None \<Rightarrow> False
                                | Some a' \<Rightarrow> ilike (a_name a') (''%'' @ normalizedAssetFilter @ ''%''))])"

definition status_conditions :: "string option \<Rightarrow> ((project \<times> asset option) \<Rightarrow> bool) list" where
  "status_conditions status =
     (case status of None \<Rightarrow> []
      | Some st \<Rightarrow> if st = [] then [] else [\<lambda>(p, a). p_status p = st])"

definition search_conditions :: "string option \<Rightarrow> ((project \<times> asset option) \<Rightarrow> bool) list" where
  "search_conditions search =
     (case search of None \<Rightarrow> []
      | Some q \<Rightarrow> if q = [] then []
                  else [\<lambda>(p, a). ilike (p_name p) (''%'' @ q @ ''%'') \<or>
                          (case p_description p of None \<Rightarrow> False
                           | Some ds \<Rightarrow> ilike ds (''%'' @ q @ ''%''))])"

definition project_conditions ::
  "string option \<Rightarrow> string option \<Rightarrow> string option
     \<Rightarrow> ((project \<times> asset option) \<Rightarrow> bool) list option" where
  "project_conditions status assetId search =
     (case (case assetId of None \<Rightarrow> Some [] | Some v \<Rightarrow> if v = [] then Some [] else asset_filter v) of
        None \<Rightarrow> None
      | Some by_asset \<Rightarrow> Some (status_conditions status @ by_asset @ search_conditions search))"

definition projects_GET ::
  "string option \<Rightarrow> string option \<Rightarrow> string option \<Rightarrow> string option \<Rightarrow> string option \<Rightarrow> db
     \<Rightarrow> ((project \<times> asset option) listing, string) response" where
  "projects_GET status search assetId page limit d =
     (case project_conditions status assetId search of
        None \<Rightarrow> Failure 500 ''Failed to fetch projects'' []
      | Some conditions \<Rightarrow>
          paginate ''Failed to fetch projects'' (\<lambda>r. p_createdAt (fst r))
            (parseInt (or_default page ''1'')) (parseInt (or_default limit ''10''))
            (filter (\<lambda>r. list_all (\<lambda>c. c r) conditions) (left_join_assets d)))"



section \<open>Operations on one row\<close>

text \<open>
  Every handler of a path with an identifier tests the identifier first, and hands it to
  the store only when it passes. The store then reads it as a uuid; if it could not, the
  statement would fail and the handler answer 500.
\<close>

text \<open>\<^verbatim>\<open>GET /api/assets/[id]\<close>: the asset and the projects that reference it.\<close>

definition asset_GET :: "string \<Rightarrow> db \<Rightarrow> (asset \<times> project list, string) response" where
  "asset_GET ident d =
     (if \<not> uuidRegex_test ident then Failure 400 ''Invalid asset ID format'' []
      else case store_uuid ident of
        None \<Rightarrow> Failure 500 ''Failed to fetch asset'' []
      | Some u \<Rightarrow>
          (case first_row (select_where (\<lambda>a. a_id a = u) (db_assets d)) of
             None \<Rightarrow> Failure 404 ''Asset not found'' []
           | Some asset \<Rightarrow>
               Success 200 (asset, select_where (\<lambda>p. p_assetId p = Some u) (db_projects d))))"

text \<open>
  \<^verbatim>\<open>GET /api/assets/[id]/projects\<close>: the projects of the asset, with the identifier as
  it was sent, the asset's name and the number of projects.
\<close>

definition asset_projects_GET ::
  "string \<Rightarrow> db \<Rightarrow> (project list \<times> string \<times> string \<times> nat, string) response" where
  "asset_projects_GET ident d =
     (if \<not> uuidRegex_test ident then Failure 400 ''Invalid asset ID format'' []
      else case store_uuid ident of
        None \<Rightarrow> Failure 500 ''Failed to fetch asset projects'' []
      | Some u \<Rightarrow>
          (case first_row (select_where (\<lambda>a. a_id a = u) (db_assets d)) of
             None \<Rightarrow> Failure 404 ''Asset not found'' []
           | Some asset \<Rightarrow>
               (let relatedProjects = select_where (\<lambda>p. p_assetId p = Some u) (db_projects d)
                in Success 200 (relatedProjects, ident, a_name asset, length relatedProjects))))"

text \<open>\<^verbatim>\<open>GET /api/projects/[id]\<close>: the project with its asset.\<close>

definition project_GET :: "string \<Rightarrow> db \<Rightarrow> (project \<times> asset option, string) response" where
  "project_GET ident d =
     (if \<not> uuidRegex_test ident then Failure 400 ''Invalid project ID format'' []
      else case store_uuid ident of
        None \<Rightarrow> Failure 500 ''Failed to fetch project'' []
      | Some u \<Rightarrow>
          (case first_row (select_where (\<lambda>(p, a). p_id p = u) (left_join_assets d)) of
             None \<Rightarrow> Failure 404 ''Project not found'' []
           | Some r \<Rightarrow> Success 200 r))"

text \<open>
  \<^verbatim>\<open>GET /api/assets/[id]/projects/[projectId]\<close>: the project, if it is assigned to
  this asset.
\<close>

definition assignment_GET :: "string \<Rightarrow> string \<Rightarrow> db \<Rightarrow> (project \<times> asset option, string) response" where
  "assignment_GET assetId projectId d =
     (if \<not> uuidRegex_test assetId \<or> \<not> uuidRegex_test projectId
      then Failure 400 ''Invalid ID format'' []
      else case (store_uuid projectId, store_uuid assetId) of
        (Some up, Some ua) \<Rightarrow>
          (case first_row (select_where (\<lambda>(p, a). p_id p = up \<and> p_assetId p = Some ua)
                             (left_join_assets d)) of
             None \<Rightarrow> Failure 404 ''Project not found or not assigned to this asset'' []
           | Some r \<Rightarrow> Success 200 r)
      | _ \<Rightarrow> Failure 500 ''Failed to fetch project assignment'' [])"

text \<open>\<^verbatim>\<open>DELETE /api/projects/[id]\<close>.\<close>

definition project_DELETE :: "string \<Rightarrow> db \<Rightarrow> (project, string) response \<times> db" where
  "project_DELETE ident d =
     (if \<not> uuidRegex_test ident then (Failure 400 ''Invalid project ID format'' [], d)
      else case store_uuid ident of
        None \<Rightarrow> (Failure 500 ''Failed to delete project'' [], d)
      | Some u \<Rightarrow>
          (let (rows, d') = delete_projects (\<lambda>p. p_id p = u) d
           in case first_row rows of
                None \<Rightarrow> (Failure 404 ''Project not found'' [], d')
              | Some deletedProject \<Rightarrow> (Success 200 deletedProject, d')))"

text \<open>\<^verbatim>\<open>DELETE /api/notes/[id]\<close>; no table references a note.\<close>

definition note_DELETE :: "string \<Rightarrow> db \<Rightarrow> (unit, string) response \<times> db" where
  "note_DELETE ident d =
     (if \<not> uuidRegex_test ident then (Failure 400 ''Invalid note ID format'' [], d)
      else case store_uuid ident of
        None \<Rightarrow> (Failure 500 ''Failed to delete note'' [], d)
      | Some u \<Rightarrow>
          (case first_row (filter (\<lambda>n. n_id n = u) (db_notes d)) of
             None \<Rightarrow> (Failure 404 ''Note not found'' [],
                       d\<lparr>db_notes := filter (\<lambda>n. n_id n \<noteq> u) (db_notes d)\<rparr>)
           | Some _ \<Rightarrow> (Success 200 (), d\<lparr>db_notes := filter (\<lambda>n. n_id n \<noteq> u) (db_notes d)\<rparr>)))"

text \<open>
  \<^verbatim>\<open>GET /api/cases/[id]\<close>: the case with the asset and the project it references, and
  \<^verbatim>\<open>DELETE /api/cases/[id]\<close>.
\<close>

definition left_join_case :: "db \<Rightarrow> (case_status \<times> asset option \<times> project option) list" where
  "left_join_case d =
     concat (map (\<lambda>(c, a). case filter (\<lambda>p. c_projectId c = Some (p_id p)) (db_projects d) of
                              [] \<Rightarrow> [(c, a, None)]
                            | ps \<Rightarrow> map (\<lambda>p. (c, a, Some p)) ps)
                 (concat (map (\<lambda>c. case filter (\<lambda>a. c_assetId c = Some (a_id a)) (db_assets d) of
                                      [] \<Rightarrow> [(c, None)]
                                    | as \<Rightarrow> map (\<lambda>a. (c, Some a)) as)
                              (db_cases d))))"

definition case_GET ::
  "string \<Rightarrow> db \<Rightarrow> (case_status \<times> asset option \<times> project option, string) response" where
  "case_GET ident d =
     (if \<not> uuidRegex_test ident then Failure 400 ''Invalid case ID format'' []
      else case store_uuid ident of
        None \<Rightarrow> Failure 500 ''Failed to fetch case'' []
      | Some u \<Rightarrow>
          (case first_row (select_where (\<lambda>(c, a, p). c_id c = u) (left_join_case d)) of
             None \<Rightarrow> Failure 404 ''Case not found'' []
           | Some r \<Rightarrow> Success 200 r))"

definition case_DELETE :: "string \<Rightarrow> db \<Rightarrow> (unit, string) response \<times> db" where
  "case_DELETE ident d =
     (if \<not> uuidRegex_test ident then (Failure 400 ''Invalid case ID format'' [], d)
      else case store_uuid ident of
        None \<Rightarrow> (Failure 500 ''Failed to delete case'' [], d)
      | Some u \<Rightarrow>
          (let (rows, d') = delete_cases (\<lambda>c. c_id c = u) d
           in case first_row rows of
                None \<Rightarrow> (Failure 404 ''Case not found'' [], d')
              | Some _ \<Rightarrow> (Success 200 (), d')))"

section \<open>Bulk deletes\<close>

text \<open>
  The \<^verbatim>\<open>ids\<close> parameter is split at commas, each piece trimmed, and every piece must
  pass the identifier test before a statement is issued. \<open>those\<close> gives the identifiers
  as the store reads them, if it can read them all.
\<close>

fun split_on :: "char \<Rightarrow> string \<Rightarrow> string list" where
  "split_on sep [] = [[]]"
| "split_on sep (x # xs) =
     (if x = sep then [] # split_on sep xs
      else case split_on sep xs of
             [] \<Rightarrow> [[x]]
           | y # ys \<Rightarrow> (x # y) # ys)"

text \<open>\<^verbatim>\<open>DELETE /api/projects?ids=...\<close>.\<close>

definition projects_bulk_DELETE :: "string option \<Rightarrow> db \<Rightarrow> (project list, string) response \<times> db" where
  "projects_bulk_DELETE idsParam d =
     (if or_default idsParam [] = [] then (Failure 400 ''Project IDs are required'' [], d)
      else
        let ids = map trim (split_on (CHR '','') (or_default idsParam []));
            invalidIds = filter (\<lambda>i. \<not> uuidRegex_test i) ids
        in if invalidIds \<noteq> [] then (Failure 400 ''Invalid project IDs provided'' invalidIds, d)
           else case those (map store_uuid ids) of
                  None \<Rightarrow> (Failure 500 ''Failed to delete projects'' [], d)
                | Some us \<Rightarrow>
                    (let (rows, d') = delete_projects (\<lambda>p. p_id p \<in> set us) d
                     in (Success 200 rows, d')))"

text \<open>
  \<^verbatim>\<open>DELETE /api/assets?ids=...\<close>: the projects of the first asset are unlinked, then,
  when there are more identifiers, those of all of them; then the assets are deleted.
\<close>

definition assets_DELETE :: "string option \<Rightarrow> db \<Rightarrow> (asset list, string) response \<times> db" where
  "assets_DELETE idsParam d =
     (if or_default idsParam [] = [] then (Failure 400 ''Asset IDs are required'' [], d)
      else
        let ids = map trim (split_on (CHR '','') (or_default idsParam []));
            invalidIds = filter (\<lambda>i. \<not> uuidRegex_test i) ids
        in if invalidIds \<noteq> [] then (Failure 400 ''Invalid asset IDs provided'' invalidIds, d)
           else case those (map store_uuid ids) of
                  None \<Rightarrow> (Failure 500 ''Failed to delete assets'' [], d)
                | Some us \<Rightarrow>
                    (let (_, d1) = update_projects (\<lambda>p. p_assetId p = Some (hd us))
                                     (\<lambda>p. p\<lparr>p_assetId := None, p_assignedAt := None\<rparr>) d;
                         (_, d2) = (if 1 < length us
                                    then update_projects (\<lambda>p. refers_to us (p_assetId p))
                                           (\<lambda>p. p\<lparr>p_assetId := None, p_assignedAt := None\<rparr>) d1
                                    else ([], d1));
                         (rows, d3) = delete_assets (\<lambda>a. a_id a \<in> set us) d2
                     in (Success 200 rows, d3)))"

text \<open>\<^verbatim>\<open>DELETE /api/assets/bulk?ids=...\<close>: one unlinking statement, then the delete.\<close>

definition assets_bulk_DELETE :: "string option \<Rightarrow> db \<Rightarrow> (asset list, string) response \<times> db" where
  "assets_bulk_DELETE idsParam d =
     (if or_default idsParam [] = [] then (Failure 400 ''Asset IDs are required'' [], d)
      else
        let ids = map trim (split_on (CHR '','') (or_default idsParam []));
            invalidIds = filter (\<lambda>i. \<not> uuidRegex_test i) ids
        in if invalidIds \<noteq> [] then (Failure 400 ''Invalid asset IDs provided'' invalidIds, d)
           else case those (map store_uuid ids) of
                  None \<Rightarrow> (Failure 500 ''Failed to delete assets'' [], d)
                | Some us \<Rightarrow>
                    (let (_, d1) = update_projects (\<lambda>p. refers_to us (p_assetId p))
                                     (\<lambda>p. p\<lparr>p_assetId := None, p_assignedAt := None\<rparr>) d;
                         (rows, d2) = delete_assets (\<lambda>a. a_id a \<in> set us) d1
                     in (Success 200 rows, d2)))"

section \<open>Request bodies and validation\<close>

text \<open>
  A request body is a JSON value; \<open>None\<close> stands for a body that \<^verbatim>\<open>request.json()\<close>
  cannot parse, which throws. An object is the list of its members, each key once; a member
  that is not listed reads as \<^verbatim>\<open>undefined\<close>.
\<close>

datatype json = JNull | JBool bool | JNum real | JStr string | JArr "json list"
  | JObj "(string \<times> json) list"

definition field :: "string \<Rightarrow> (string \<times> json) list \<Rightarrow> json option" where
  "field k members = map_of members k"

definition truthy :: "json option \<Rightarrow> bool" where
  "truthy v =
     (case v of
        None \<Rightarrow> False
      | Some JNull \<Rightarrow> False
      | Some (JBool b) \<Rightarrow> b
      | Some (JNum n) \<Rightarrow> n \<noteq> 0
      | Some (JStr s) \<Rightarrow> s \<noteq> []
      | Some _ \<Rightarrow> True)"

text \<open>
  A validation issue: the path of the field, the message, and whether the field's parser
  gave up (a value of the wrong type) rather than only failing a check. Where the schema
  names no message, the text is the validator's issue code.

  The string checks of the validator library and of the platform are parameters of the
  schemas: \<open>zuuid\<close> is the validator's \<^verbatim>\<open>.uuid()\<close> test, \<open>datetime\<close> reads an ISO
  date-time string, and \<open>parseDate\<close> is the \<^verbatim>\<open>Date\<close> constructor on a string; both give
  \<open>None\<close> on a string they do not accept. What the validator accepts, the store still has
  to read.
\<close>

datatype issue = Issue (i_path: "string list") (i_message: string) (i_fatal: bool)

definition join_path :: "string list \<Rightarrow> string" where
  "join_path ks = (case ks of [] \<Rightarrow> [] | k # r \<Rightarrow> foldl (\<lambda>acc x. acc @ ''.'' @ x) k r)"

definition format_issue :: "issue \<Rightarrow> string" where
  "format_issue e = join_path (i_path e) @ '': '' @ i_message e"

text \<open>
  The field validators of \<^verbatim>\<open>updateProjectSchema\<close>. Every field is optional: a member
  that is absent stays absent, except for the status, where the validator fills in the
  default of the insert schema.
\<close>

definition z_name :: "string \<Rightarrow> string \<Rightarrow> json option \<Rightarrow> issue list \<times> string option" where
  "z_name k msg v =
     (case v of
        None \<Rightarrow> ([], None)
      | Some (JStr s) \<Rightarrow> if s = [] then ([Issue [k] msg False], None) else ([], Some (trim s))
      | Some _ \<Rightarrow> ([Issue [k] ''invalid_type'' True], None))"

definition z_string :: "string \<Rightarrow> json option \<Rightarrow> issue list \<times> string option" where
  "z_string k v =
     (case v of
        None \<Rightarrow> ([], None)
      | Some (JStr s) \<Rightarrow> ([], Some s)
      | Some _ \<Rightarrow> ([Issue [k] ''invalid_type'' True], None))"

definition z_enum :: "string \<Rightarrow> string list \<Rightarrow> json option \<Rightarrow> issue list \<times> string option" where
  "z_enum k allowed v =
     (case v of
        None \<Rightarrow> ([], None)
      | Some (JStr s) \<Rightarrow> if s \<in> set allowed then ([], Some s)
                         else ([Issue [k] ''invalid_enum_value'' True], None)
      | Some _ \<Rightarrow> ([Issue [k] ''invalid_type'' True], None))"

definition z_enum_default ::
  "string \<Rightarrow> string list \<Rightarrow> string \<Rightarrow> json option \<Rightarrow> issue list \<times> string option" where
  "z_enum_default k allowed dflt v = (case v of None \<Rightarrow> ([], Some dflt) | Some _ \<Rightarrow> z_enum k allowed v)"

definition z_uuid_or_null ::
  "(string \<Rightarrow> bool) \<Rightarrow> string \<Rightarrow> string \<Rightarrow> json option \<Rightarrow> issue list \<times> string option option" where
  "z_uuid_or_null zuuid k msg v =
     (case v of
        None \<Rightarrow> ([], None)
      | Some JNull \<Rightarrow> ([], Some None)
      | Some (JStr s) \<Rightarrow> if zuuid s then ([], Some (Some s))
                         else ([Issue [k] msg False], None)
      | Some _ \<Rightarrow> ([Issue [k] ''invalid_union'' True], None))"

definition z_datetime_or_null ::
  "(string \<Rightarrow> timestamp option) \<Rightarrow> string \<Rightarrow> json option \<Rightarrow> issue list \<times> timestamp option option" where
  "z_datetime_or_null datetime k v =
     (case v of
        None \<Rightarrow> ([], None)
      | Some JNull \<Rightarrow> ([], Some None)
      | Some (JStr s) \<Rightarrow> (case datetime s of
                           Some t \<Rightarrow> ([], Some (Some t))
                         | None \<Rightarrow> ([Issue [k] ''Invalid date format'' False], None))
      | Some _ \<Rightarrow> ([Issue [k] ''invalid_union'' True], None))"

text \<open>A column that wants a \<^verbatim>\<open>Date\<close> object: no JSON value is one.\<close>

definition z_date_object :: "string \<Rightarrow> json option \<Rightarrow> issue list" where
  "z_date_object k v = (case v of None \<Rightarrow> [] | Some _ \<Rightarrow> [Issue [k] ''invalid_type'' True])"

record project_patch =
  u_name :: "string option"
  u_description :: "string option"
  u_status :: "string option"
  u_assetId :: "string option option"
  u_startDate :: "timestamp option option"
  u_endDate :: "timestamp option option"
  u_assignedAt :: "timestamp option option"

definition project_statuses :: "string list" where
  "project_statuses = [''planning'', ''active'', ''on-hold'', ''completed'', ''cancelled'']"

definition updateProjectSchema_parse ::
  "(string \<Rightarrow> bool) \<Rightarrow> (string \<Rightarrow> timestamp option) \<Rightarrow> json \<Rightarrow> issue list + project_patch" where
  "updateProjectSchema_parse zuuid datetime body =
     (case body of
        JObj ms \<Rightarrow>
          (let (e1, name) = z_name ''name'' ''Project name is required'' (field ''name'' ms);
               (e2, description) = z_string ''description'' (field ''description'' ms);
               (e3, status) = z_enum_default ''status'' project_statuses ''planning'' (field ''status'' ms);
               (e4, assetId) = z_uuid_or_null zuuid ''assetId'' ''Invalid asset ID'' (field ''assetId'' ms);
               (e5, startDate) = z_datetime_or_null datetime ''startDate'' (field ''startDate'' ms);
               (e6, endDate) = z_datetime_or_null datetime ''endDate'' (field ''endDate'' ms);
               (e7, assignedAt) = z_datetime_or_null datetime ''assignedAt'' (field ''assignedAt'' ms);
               e8 = z_date_object ''updatedAt'' (field ''updatedAt'' ms);
               issues = e1 @ e2 @ e3 @ e4 @ e5 @ e6 @ e7 @ e8
           in if issues = []
              then Inr \<lparr>u_name = name, u_description = description, u_status = status,
                        u_assetId = assetId, u_startDate = startDate, u_endDate = endDate,
                        u_assignedAt = assignedAt\<rparr>
              else Inl issues)
      | _ \<Rightarrow> Inl [Issue [] ''invalid_type'' True])"

section \<open>Updating projects\<close>

text \<open>
  What the update handlers write:
  \<^verbatim>\<open>{...validatedData, assignedAt: validatedData.assetId ? new Date() : null, updatedAt: new Date()}\<close>.
  A key whose value is \<^verbatim>\<open>undefined\<close> leaves its column alone; \<^verbatim>\<open>assignedAt\<close> and
  \<^verbatim>\<open>updatedAt\<close> are always written.
\<close>

definition projectUpdateData :: "timestamp \<Rightarrow> project_patch \<Rightarrow> project \<Rightarrow> project" where
  "projectUpdateData now v p =
     p\<lparr>p_name := (case u_name v of None \<Rightarrow> p_name p | Some x \<Rightarrow> x),
       p_description := (case u_description v of None \<Rightarrow> p_description p | Some x \<Rightarrow> Some x),
       p_status := (case u_status v of None \<Rightarrow> p_status p | Some x \<Rightarrow> x),
       p_assetId := (case u_assetId v of None \<Rightarrow> p_assetId p | Some x \<Rightarrow> x),
       p_startDate := (case u_startDate v of None \<Rightarrow> p_startDate p | Some x \<Rightarrow> x),
       p_endDate := (case u_endDate v of None \<Rightarrow> p_endDate p | Some x \<Rightarrow> x),
       p_assignedAt := (case u_assetId v of Some (Some a) \<Rightarrow> if a = [] then None else Some now
                        | _ \<Rightarrow> None),
       p_updatedAt := now\<rparr>"

text \<open>
  The asset reference of the validated data as the store reads it; \<open>None\<close> when the store
  cannot, and the statement fails.
\<close>

definition stored_patch :: "project_patch \<Rightarrow> project_patch option" where
  "stored_patch v =
     (case u_assetId v of
        Some r \<Rightarrow> (case read_reference r of
                     None \<Rightarrow> None
                   | Some r' \<Rightarrow> Some (v\<lparr>u_assetId := Some r'\<rparr>))
      | None \<Rightarrow> Some v)"

text \<open>
  An update that gives a row a new asset reference is refused by the foreign key when no
  such asset exists; the statement then throws and changes nothing.
\<close>

definition update_projects_fk ::
  "(project \<Rightarrow> bool) \<Rightarrow> (project \<Rightarrow> project) \<Rightarrow> db \<Rightarrow> (project list \<times> db) option" where
  "update_projects_fk c f d =
     (if \<exists>p \<in> set (db_projects d). c p \<and> p_assetId (f p) \<noteq> p_assetId p \<and>
            (case p_assetId (f p) of None \<Rightarrow> False | Some a \<Rightarrow> a \<notin> set (map a_id (db_assets d)))
      then None
      else Some (update_projects c f d))"

definition associatedAsset :: "project \<Rightarrow> db \<Rightarrow> asset option" where
  "associatedAsset p d =
     (case p_assetId p of
        None \<Rightarrow> None
      | Some a \<Rightarrow> if a = [] then None else first_row (select_where (\<lambda>x. a_id x = a) (db_assets d)))"

text \<open>\<^verbatim>\<open>PUT /api/projects/[id]\<close>. The body is read before the identifier is tested.\<close>

definition project_PUT ::
  "(string \<Rightarrow> bool) \<Rightarrow> (string \<Rightarrow> timestamp option) \<Rightarrow> timestamp \<Rightarrow> string \<Rightarrow> json option \<Rightarrow> db
     \<Rightarrow> (project \<times> asset option, string) response \<times> db" where
  "project_PUT zuuid datetime now ident body d =
     (case body of
        None \<Rightarrow> (Failure 500 ''Failed to update project'' [], d)
      | Some b \<Rightarrow>
          if \<not> uuidRegex_test ident then (Failure 400 ''Invalid project ID format'' [], d)
          else case updateProjectSchema_parse zuuid datetime b of
            Inl issues \<Rightarrow> (Failure 400 ''Validation failed'' (map format_issue issues), d)
          | Inr validatedData \<Rightarrow>
              (case (store_uuid ident, stored_patch validatedData) of
                 (Some u, Some written) \<Rightarrow>
                   (case update_projects_fk (\<lambda>p. p_id p = u) (projectUpdateData now written) d of
                      None \<Rightarrow> (Failure 500 ''Failed to update project'' [], d)
                    | Some (rows, d') \<Rightarrow>
                        (case first_row rows of
                           None \<Rightarrow> (Failure 404 ''Project not found'' [], d')
                         | Some updatedProject \<Rightarrow>
                             (Success 200 (updatedProject, associatedAsset updatedProject d'), d')))
               | _ \<Rightarrow> (Failure 500 ''Failed to update project'' [], d)))"

text \<open>
  \<^verbatim>\<open>PUT /api/projects\<close>, the bulk update. \<^verbatim>\<open>projectsToUpdate.map(async ...)\<close> runs
  every callback up to its first \<^verbatim>\<open>await\<close>: an element without an \<^verbatim>\<open>id\<close> or with an
  invalid payload rejects at once, every other element has its update issued, and
  \<^verbatim>\<open>Promise.all\<close> rejects with the earliest rejection. An update that matches no row
  makes the callback read a member of \<^verbatim>\<open>undefined\<close>, which rejects too. The updates are
  applied in the order of the array.
\<close>

definition bulk_element ::
  "(string \<Rightarrow> bool) \<Rightarrow> (string \<Rightarrow> timestamp option) \<Rightarrow> json
     \<Rightarrow> issue list option + json \<times> project_patch" where
  "bulk_element zuuid datetime e =
     (case e of
        JObj ms \<Rightarrow>
          (case field ''id'' ms of
             None \<Rightarrow> Inl None
           | Some i \<Rightarrow>
               if \<not> truthy (Some i) then Inl None
               else case updateProjectSchema_parse zuuid datetime
                           (JObj (filter (\<lambda>(k, _). k \<noteq> ''id'') ms)) of
                      Inl issues \<Rightarrow> Inl (Some issues)
                    | Inr v \<Rightarrow> Inr (i, v))
      | _ \<Rightarrow> Inl None)"

fun run_updates ::
  "timestamp \<Rightarrow> (json \<times> project_patch) list \<Rightarrow> db \<Rightarrow> (project \<times> asset option) option list \<times> db" where
  "run_updates now [] d = ([], d)"
| "run_updates now ((i, v) # rest) d =
     (let (r, d1) =
            (case i of
               JStr ident \<Rightarrow>
                 (case (store_uuid ident, stored_patch v) of
                    (Some u, Some written) \<Rightarrow>
                      (case update_projects_fk (\<lambda>p. p_id p = u) (projectUpdateData now written) d of
                         None \<Rightarrow> (None, d)
                       | Some (rows, d') \<Rightarrow>
                           (case first_row rows of
                              None \<Rightarrow> (None, d')
                            | Some updatedProject \<Rightarrow>
                                (Some (updatedProject, associatedAsset updatedProject d'), d')))
                  | _ \<Rightarrow> (None, d))
             | _ \<Rightarrow> (None, d));
          (rs, d2) = run_updates now rest d1
      in (r # rs, d2))"

definition projects_PUT ::
  "(string \<Rightarrow> bool) \<Rightarrow> (string \<Rightarrow> timestamp option) \<Rightarrow> timestamp \<Rightarrow> json option \<Rightarrow> db
     \<Rightarrow> ((project \<times> asset option) list, string) response \<times> db" where
  "projects_PUT zuuid datetime now body d =
     (case body of
        None \<Rightarrow> (Failure 500 ''Failed to update projects'' [], d)
      | Some JNull \<Rightarrow> (Failure 500 ''Failed to update projects'' [], d)
      | Some b \<Rightarrow>
          (case (case b of JObj ms \<Rightarrow> field ''projects'' ms | _ \<Rightarrow> None) of
             Some (JArr projectsToUpdate) \<Rightarrow>
               (let checked = map (bulk_element zuuid datetime) projectsToUpdate;
                    (results, d') =
                      run_updates now (concat (map (\<lambda>c. case c of Inr x \<Rightarrow> [x] | Inl _ \<Rightarrow> []) checked)) d
                in case concat (map (\<lambda>c. case c of Inl x \<Rightarrow> [x] | Inr _ \<Rightarrow> []) checked) of
                     None # _ \<Rightarrow> (Failure 500 ''Failed to update projects'' [], d')
                   | Some issues # _ \<Rightarrow>
                       (Failure 400 ''Validation failed'' (map format_issue issues), d')
                   | [] \<Rightarrow>
                       if list_all (\<lambda>r. r \<noteq> None) results
                       then (Success 200 (concat (map (\<lambda>r. case r of Some x \<Rightarrow> [x] | None \<Rightarrow> []) results)), d')
                       else (Failure 500 ''Failed to update projects'' [], d'))
           | _ \<Rightarrow> (Failure 400 ''Expected an array of projects'' [], d)))"

section \<open>Creating a project for an asset\<close>

text \<open>
  \<^verbatim>\<open>POST /api/assets/[id]/projects\<close>. The body is read first, then the identifier is
  tested and the asset looked up; the route's own schema validates the body. The new row
  takes the identifier the store generates (\<open>newId\<close>) and the store's clock for its
  creation time.
\<close>

definition z_required_name :: "string \<Rightarrow> string \<Rightarrow> json option \<Rightarrow> issue list \<times> string option" where
  "z_required_name k msg v =
     (case v of
        Some (JStr s) \<Rightarrow> if s = [] then ([Issue [k] msg False], None) else ([], Some (trim s))
      | _ \<Rightarrow> ([Issue [k] ''invalid_type'' True], None))"

definition projectSchema_parse :: "(string \<Rightarrow> timestamp option) \<Rightarrow> json \<Rightarrow> issue list + project_patch" where
  "projectSchema_parse datetime body =
     (case body of
        JObj ms \<Rightarrow>
          (let (e1, name) = z_required_name ''name'' ''Project name is required'' (field ''name'' ms);
               (e2, description) = z_string ''description'' (field ''description'' ms);
               (e3, status) = z_enum_default ''status'' project_statuses ''planning'' (field ''status'' ms);
               (e4, startDate) = z_datetime_or_null datetime ''startDate'' (field ''startDate'' ms);
               (e5, endDate) = z_datetime_or_null datetime ''endDate'' (field ''endDate'' ms);
               issues = e1 @ e2 @ e3 @ e4 @ e5
           in if issues = []
              then Inr \<lparr>u_name = name, u_description = description, u_status = status,
                        u_assetId = None, u_startDate = startDate, u_endDate = endDate,
                        u_assignedAt = None\<rparr>
              else Inl issues)
      | _ \<Rightarrow> Inl [Issue [] ''invalid_type'' True])"

definition insert_project :: "project \<Rightarrow> db \<Rightarrow> db option" where
  "insert_project row d =
     (if p_id row \<in> set (map p_id (db_projects d)) \<or>
         \<not> names_row (p_assetId row) (map a_id (db_assets d))
      then None
      else Some (d\<lparr>db_projects := db_projects d @ [row]\<rparr>))"

definition asset_projects_POST ::
  "(string \<Rightarrow> timestamp option) \<Rightarrow> string \<Rightarrow> timestamp \<Rightarrow> string \<Rightarrow> json option \<Rightarrow> db
     \<Rightarrow> (project \<times> asset, string) response \<times> db" where
  "asset_projects_POST datetime newId now ident body d =
     (case body of
        None \<Rightarrow> (Failure 500 ''Failed to create project for asset'' [], d)
      | Some b \<Rightarrow>
          if \<not> uuidRegex_test ident then (Failure 400 ''Invalid asset ID format'' [], d)
          else case store_uuid ident of
            None \<Rightarrow> (Failure 500 ''Failed to create project for asset'' [], d)
          | Some u \<Rightarrow>
              (case first_row (select_where (\<lambda>a. a_id a = u) (db_assets d)) of
                 None \<Rightarrow> (Failure 404 ''Asset not found'' [], d)
               | Some asset \<Rightarrow>
                   (case projectSchema_parse datetime b of
                      Inl issues \<Rightarrow> (Failure 400 ''Validation failed'' (map format_issue issues), d)
                    | Inr validatedData \<Rightarrow>
                        (let newProject =
                               \<lparr>p_id = newId,
                                p_name = (case u_name validatedData of None \<Rightarrow> [] | Some x \<Rightarrow> x),
                                p_description = u_description validatedData,
                                p_status = (case u_status validatedData of None \<Rightarrow> ''planning''
                                            | Some x \<Rightarrow> x),
                                p_assetId = Some u,
                                p_startDate = (case u_startDate validatedData of None \<Rightarrow> None
                                               | Some x \<Rightarrow> x),
                                p_endDate = (case u_endDate validatedData of None \<Rightarrow> None | Some x \<Rightarrow> x),
                                p_assignedAt = Some now, p_createdAt = now, p_updatedAt = now\<rparr>
                         in case insert_project newProject d of
                              None \<Rightarrow> (Failure 500 ''Failed to create project for asset'' [], d)
                            | Some d' \<Rightarrow> (Success 201 (newProject, asset), d')))))"

section \<open>Creating a note\<close>

text \<open>
  \<^verbatim>\<open>normalizeBody\<close> of the notes route works on a copy of the body's members: a body that
  is not an object has none of the members the route reads.
\<close>

definition members_of :: "json \<Rightarrow> (string \<times> json) list" where
  "members_of b = (case b of JObj ms \<Rightarrow> ms | _ \<Rightarrow> [])"


definition sanitizeNullableId :: "json \<Rightarrow> json" where
  "sanitizeNullableId v =
     (case v of
        JStr s \<Rightarrow> (let trimmed = trim s in if trimmed = [] then JNull else JStr trimmed)
      | _ \<Rightarrow> v)"



text \<open>
  \<^verbatim>\<open>insertNoteSchema\<close>: the columns of the notes table in order, then the refinement,
  which runs unless a field's parser gave up and reads the three references as they were
  parsed.
\<close>

definition z_uuid_optional ::
  "(string \<Rightarrow> bool) \<Rightarrow> string \<Rightarrow> string \<Rightarrow> json option \<Rightarrow> issue list \<times> string option" where
  "z_uuid_optional zuuid k msg v =
     (case v of
        None \<Rightarrow> ([], None)
      | Some (JStr s) \<Rightarrow> if zuuid s then ([], Some s) else ([Issue [k] msg False], None)
      | Some _ \<Rightarrow> ([Issue [k] ''invalid_type'' True], None))"









section \<open>Validating an asset\<close>

text \<open>
  \<^verbatim>\<open>insertAssetSchema\<close> and \<^verbatim>\<open>updateAssetSchema\<close>, as the list of issues they raise;
  a payload is accepted when the list is empty. The update schema is the insert schema
  with every field optional and without \<^verbatim>\<open>id\<close> and \<^verbatim>\<open>createdAt\<close>. A JSON number
  is the real value of the number it was parsed to.
\<close>

definition z_text :: "bool \<Rightarrow> string \<Rightarrow> json option \<Rightarrow> issue list" where
  "z_text partial k v =
     (case v of
        None \<Rightarrow> if partial then [] else [Issue [k] ''invalid_type'' True]
      | Some (JStr _) \<Rightarrow> []
      | Some _ \<Rightarrow> [Issue [k] ''invalid_type'' True])"

definition z_text_min1 :: "bool \<Rightarrow> string \<Rightarrow> string \<Rightarrow> json option \<Rightarrow> issue list" where
  "z_text_min1 partial k msg v =
     (case v of
        None \<Rightarrow> if partial then [] else [Issue [k] ''invalid_type'' True]
      | Some (JStr s) \<Rightarrow> if s = [] then [Issue [k] msg False] else []
      | Some _ \<Rightarrow> [Issue [k] ''invalid_type'' True])"

definition z_text_nullish :: "string \<Rightarrow> json option \<Rightarrow> issue list" where
  "z_text_nullish k v =
     (case v of
        None \<Rightarrow> []
      | Some JNull \<Rightarrow> []
      | Some (JStr _) \<Rightarrow> []
      | Some _ \<Rightarrow> [Issue [k] ''invalid_type'' True])"

definition z_coordinate :: "string \<Rightarrow> real \<Rightarrow> string \<Rightarrow> json option \<Rightarrow> issue list" where
  "z_coordinate k bound msg v =
     (case v of
        Some (JNum x) \<Rightarrow>
          (if x < - bound then [Issue [''location'', k] msg False] else []) @
          (if bound < x then [Issue [''location'', k] msg False] else [])
      | _ \<Rightarrow> [Issue [''location'', k] ''invalid_type'' True])"

definition z_location :: "bool \<Rightarrow> json option \<Rightarrow> issue list" where
  "z_location partial v =
     (case v of
        None \<Rightarrow> if partial then [] else [Issue [''location''] ''invalid_type'' True]
      | Some (JObj ls) \<Rightarrow>
          z_coordinate ''lat'' 90 ''Latitude must be between -90 and 90'' (field ''lat'' ls) @
          z_coordinate ''lng'' 180 ''Longitude must be between -180 and 180'' (field ''lng'' ls)
      | Some _ \<Rightarrow> [Issue [''location''] ''invalid_type'' True])"

text \<open>
  \<^verbatim>\<open>coerceTimestamp\<close>: a string is trimmed and handed to the \<^verbatim>\<open>Date\<close> constructor
  (\<open>parseDate\<close>, \<open>None\<close> for an invalid date), a number is a time value if it is within the
  range of \<^verbatim>\<open>Date\<close>; anything that does not become a date fails. \<open>date_value\<close> is the
  date that results, with the fraction of a number cut off.
\<close>

definition coerceTimestamp :: "bool \<Rightarrow> (string \<Rightarrow> timestamp option) \<Rightarrow> string \<Rightarrow> json option \<Rightarrow> issue list" where
  "coerceTimestamp partial parseDate k v =
     (case v of
        None \<Rightarrow> if partial then [] else [Issue [k] ''invalid_type'' True]
      | Some (JStr s) \<Rightarrow>
          (let trimmed = trim s
           in if trimmed = [] then [Issue [k] ''invalid_type'' True]
              else case parseDate trimmed of
                     Some _ \<Rightarrow> []
                   | None \<Rightarrow> [Issue [k] ''invalid_type'' True])
      | Some (JNum n) \<Rightarrow> if \<bar>n\<bar> \<le> 8640000000000000 then [] else [Issue [k] ''invalid_type'' True]
      | Some _ \<Rightarrow> [Issue [k] ''invalid_type'' True])"

definition date_value :: "(string \<Rightarrow> timestamp option) \<Rightarrow> json option \<Rightarrow> timestamp option" where
  "date_value parseDate v =
     (case v of
        Some (JStr s) \<Rightarrow> if trim s = [] then None else parseDate (trim s)
      | Some (JNum n) \<Rightarrow> if \<bar>n\<bar> \<le> 8640000000000000
                         then Some (if n < 0 then \<lceil>n\<rceil> else \<lfloor>n\<rfloor>) else None
      | _ \<Rightarrow> None)"

definition asset_statuses :: "string list" where
  "asset_statuses = [''active'', ''inactive'', ''maintenance'', ''retired'']"

definition asset_schema_issues ::
  "(string \<Rightarrow> bool) \<Rightarrow> bool \<Rightarrow> (string \<Rightarrow> timestamp option) \<Rightarrow> json \<Rightarrow> issue list" where
  "asset_schema_issues zuuid partial parseDate body =
     (case body of
        JObj ms \<Rightarrow>
          (if partial then [] else fst (z_uuid_optional zuuid ''id'' ''Invalid uuid'' (field ''id'' ms))) @
          z_text_min1 partial ''name'' ''Asset name is required'' (field ''name'' ms) @
          z_text_min1 partial ''description'' ''Asset description is required'' (field ''description'' ms) @
          z_text partial ''taxDecNo'' (field ''taxDecNo'' ms) @
          z_text partial ''declaredOwner'' (field ''declaredOwner'' ms) @
          z_text partial ''marketValue'' (field ''marketValue'' ms) @
          z_text partial ''assessedValue'' (field ''assessedValue'' ms) @
          z_text_nullish ''carStatus'' (field ''carStatus'' ms) @
          z_location partial (field ''location'' ms) @
          fst (z_enum ''status'' asset_statuses (field ''status'' ms)) @
          z_text partial ''address'' (field ''address'' ms) @
          z_text partial ''taxDeclarationNo'' (field ''taxDeclarationNo'' ms) @
          z_text partial ''tctNo'' (field ''tctNo'' ms) @
          z_text partial ''areaPerSqM'' (field ''areaPerSqM'' ms) @
          z_text partial ''locationOfPropery'' (field ''locationOfPropery'' ms) @
          z_text partial ''barangay'' (field ''barangay'' ms) @
          z_text partial ''bidder'' (field ''bidder'' ms) @
          coerceTimestamp partial parseDate ''auctionDate'' (field ''auctionDate'' ms) @
          coerceTimestamp partial parseDate ''dateOfCertificationOfSale''
            (field ''dateOfCertificationOfSale'' ms) @
          z_text partial ''entryNo'' (field ''entryNo'' ms) @
          z_text partial ''detailsShortUpdateLog'' (field ''detailsShortUpdateLog'' ms) @
          (if partial then [] else z_date_object ''createdAt'' (field ''createdAt'' ms)) @
          z_date_object ''updatedAt'' (field ''updatedAt'' ms)
      | _ \<Rightarrow> [Issue [] ''invalid_type'' True])"

definition insertAssetSchema_issues ::
  "(string \<Rightarrow> bool) \<Rightarrow> (string \<Rightarrow> timestamp option) \<Rightarrow> json \<Rightarrow> issue list" where
  "insertAssetSchema_issues zuuid = asset_schema_issues zuuid False"

definition updateAssetSchema_issues :: "(string \<Rightarrow> timestamp option) \<Rightarrow> json \<Rightarrow> issue list" where
  "updateAssetSchema_issues = asset_schema_issues (\<lambda>_. True) True"

section \<open>Updating an asset\<close>

text \<open>
  What \<^verbatim>\<open>PUT /api/assets/[id]\<close> writes for a payload that the update schema accepts:
  the members that are present, the name and the description trimmed, the status or else
  its default, and the time of the update.
\<close>

definition text_member :: "json option \<Rightarrow> string \<Rightarrow> string" where
  "text_member v old = (case v of Some (JStr s) \<Rightarrow> s | _ \<Rightarrow> old)"

definition coordinate_member :: "string \<Rightarrow> json option \<Rightarrow> real \<Rightarrow> real" where
  "coordinate_member k v old =
     (case v of
        Some (JObj ls) \<Rightarrow> (case field k ls of Some (JNum x) \<Rightarrow> x | _ \<Rightarrow> old)
      | _ \<Rightarrow> old)"

definition assetUpdateData ::
  "(string \<Rightarrow> timestamp option) \<Rightarrow> timestamp \<Rightarrow> (string \<times> json) list \<Rightarrow> asset \<Rightarrow> asset" where
  "assetUpdateData parseDate now ms a =
     a\<lparr>a_name := (case field ''name'' ms of Some (JStr s) \<Rightarrow> trim s | _ \<Rightarrow> a_name a),
       a_description := (case field ''description'' ms of Some (JStr s) \<Rightarrow> trim s
                         | _ \<Rightarrow> a_description a),
       a_taxDecNo := text_member (field ''taxDecNo'' ms) (a_taxDecNo a),
       a_declaredOwner := text_member (field ''declaredOwner'' ms) (a_declaredOwner a),
       a_marketValue := text_member (field ''marketValue'' ms) (a_marketValue a),
       a_assessedValue := text_member (field ''assessedValue'' ms) (a_assessedValue a),
       a_carStatus := (case field ''carStatus'' ms of
                         Some (JStr s) \<Rightarrow> Some s | Some JNull \<Rightarrow> None | _ \<Rightarrow> a_carStatus a),
       a_lat := coordinate_member ''lat'' (field ''location'' ms) (a_lat a),
       a_lng := coordinate_member ''lng'' (field ''location'' ms) (a_lng a),
       a_status := text_member (field ''status'' ms) ''active'',
       a_address := text_member (field ''address'' ms) (a_address a),
       a_taxDeclarationNo := text_member (field ''taxDeclarationNo'' ms) (a_taxDeclarationNo a),
       a_tctNo := text_member (field ''tctNo'' ms) (a_tctNo a),
       a_areaPerSqM := text_member (field ''areaPerSqM'' ms) (a_areaPerSqM a),
       a_locationOfPropery := text_member (field ''locationOfPropery'' ms) (a_locationOfPropery a),
       a_barangay := text_member (field ''barangay'' ms) (a_barangay a),
       a_bidder := text_member (field ''bidder'' ms) (a_bidder a),
       a_auctionDate := (case date_value parseDate (field ''auctionDate'' ms) of
                           Some t \<Rightarrow> t | None \<Rightarrow> a_auctionDate a),
       a_dateOfCertificationOfSale :=
         (case date_value parseDate (field ''dateOfCertificationOfSale'' ms) of
            Some t \<Rightarrow> t | None \<Rightarrow> a_dateOfCertificationOfSale a),
       a_entryNo := text_member (field ''entryNo'' ms) (a_entryNo a),
       a_detailsShortUpdateLog :=
         text_member (field ''detailsShortUpdateLog'' ms) (a_detailsShortUpdateLog a),
       a_updatedAt := now\<rparr>"

text \<open>\<^verbatim>\<open>PUT /api/assets/[id]\<close>. The body is read before the identifier is tested.\<close>

definition asset_PUT ::
  "(string \<Rightarrow> timestamp option) \<Rightarrow> timestamp \<Rightarrow> string \<Rightarrow> json option \<Rightarrow> db
     \<Rightarrow> (asset \<times> project list, string) response \<times> db" where
  "asset_PUT parseDate now ident body d =
     (case body of
        None \<Rightarrow> (Failure 500 ''Failed to update asset'' [], d)
      | Some b \<Rightarrow>
          if \<not> uuidRegex_test ident then (Failure 400 ''Invalid asset ID format'' [], d)
          else if updateAssetSchema_issues parseDate b \<noteq> []
          then (Failure 400 ''Validation failed''
                  (map format_issue (updateAssetSchema_issues parseDate b)), d)
          else case store_uuid ident of
            None \<Rightarrow> (Failure 500 ''Failed to update asset'' [], d)
          | Some u \<Rightarrow>
              (let d' = d\<lparr>db_assets := map (\<lambda>a. if a_id a = u
                                                 then assetUpdateData parseDate now (members_of b) a
                                                 else a)
                                            (db_assets d)\<rparr>
               in case first_row (select_where (\<lambda>a. a_id a = u) (db_assets d')) of
                    None \<Rightarrow> (Failure 404 ''Asset not found'' [], d')
                  | Some updatedAsset \<Rightarrow>
                      (Success 200
                         (updatedAsset, select_where (\<lambda>p. p_assetId p = Some u) (db_projects d')),
                       d')))"

section \<open>Updating a case\<close>

text \<open>
  \<^verbatim>\<open>PUT /api/cases/[id]\<close> tests the identifier before it reads the body. The payload
  is the normalized body with both references sanitized, so that a reference the body
  leaves out is written as null.
\<close>

definition put_field :: "string \<Rightarrow> json \<Rightarrow> (string \<times> json) list \<Rightarrow> (string \<times> json) list" where
  "put_field k v ms = (k, v) # filter (\<lambda>(k', _). k' \<noteq> k) ms"

definition trim_member :: "string \<Rightarrow> (string \<times> json) list \<Rightarrow> (string \<times> json) list" where
  "trim_member k ms =
     (case field k ms of
        Some (JStr s) \<Rightarrow> if s \<noteq> [] then put_field k (JStr (trim s)) ms else ms
      | _ \<Rightarrow> ms)"

definition normalizeCasePayload :: "(string \<times> json) list \<Rightarrow> (string \<times> json) list" where
  "normalizeCasePayload body =
     (let payload = (case field ''caseNo'' body of
                       Some v \<Rightarrow> if truthy (Some v) \<and> \<not> truthy (field ''case_no'' body)
                                 then put_field ''case_no'' v body else body
                     | None \<Rightarrow> body)
      in trim_member ''judge'' (trim_member ''rtc'' (trim_member ''case_no'' payload)))"

definition sanitize_or_null :: "json option \<Rightarrow> json" where
  "sanitize_or_null v = (case v of None \<Rightarrow> JNull | Some x \<Rightarrow> sanitizeNullableId x)"

record case_patch =
  k_rtc :: "string option"
  k_case_no :: "string option"
  k_lastUpdatedAt :: "timestamp option"
  k_details :: "string option"
  k_judge :: "string option"
  k_assetId :: "string option option"
  k_projectId :: "string option option"

definition z_uuid_nullable ::
  "(string \<Rightarrow> bool) \<Rightarrow> string \<Rightarrow> json option \<Rightarrow> issue list \<times> string option option" where
  "z_uuid_nullable zuuid k v =
     (case v of
        None \<Rightarrow> ([], None)
      | Some JNull \<Rightarrow> ([], Some None)
      | Some (JStr s) \<Rightarrow> if zuuid s then ([], Some (Some s))
                         else ([Issue [k] ''Invalid uuid'' False], None)
      | Some _ \<Rightarrow> ([Issue [k] ''invalid_type'' True], None))"

definition updateCaseStatusSchema_parse ::
  "(string \<Rightarrow> bool) \<Rightarrow> (string \<Rightarrow> timestamp option) \<Rightarrow> (string \<times> json) list
     \<Rightarrow> issue list + case_patch" where
  "updateCaseStatusSchema_parse zuuid parseDate ms =
     (let (e1, rtc) = z_name ''rtc'' ''RTC is required'' (field ''rtc'' ms);
          (e2, case_no) = z_name ''case_no'' ''Case number is required'' (field ''case_no'' ms);
          e3 = coerceTimestamp True parseDate ''lastUpdatedAt'' (field ''lastUpdatedAt'' ms);
          (e4, details) = z_string ''details'' (field ''details'' ms);
          (e5, judge) = z_string ''judge'' (field ''judge'' ms);
          (e6, assetId) = z_uuid_nullable zuuid ''assetId'' (field ''assetId'' ms);
          (e7, projectId) = z_uuid_nullable zuuid ''projectId'' (field ''projectId'' ms);
          issues = e1 @ e2 @ e3 @ e4 @ e5 @ e6 @ e7
      in if issues = []
         then Inr \<lparr>k_rtc = rtc, k_case_no = case_no,
                   k_lastUpdatedAt = date_value parseDate (field ''lastUpdatedAt'' ms),
                   k_details = details, k_judge = judge, k_assetId = assetId,
                   k_projectId = projectId\<rparr>
         else Inl issues)"

definition caseUpdateData :: "case_patch \<Rightarrow> case_status \<Rightarrow> case_status" where
  "caseUpdateData v c =
     c\<lparr>c_rtc := (case k_rtc v of None \<Rightarrow> c_rtc c | Some x \<Rightarrow> x),
       c_case_no := (case k_case_no v of None \<Rightarrow> c_case_no c | Some x \<Rightarrow> x),
       c_lastUpdatedAt := (case k_lastUpdatedAt v of None \<Rightarrow> c_lastUpdatedAt c | Some x \<Rightarrow> x),
       c_details := (case k_details v of None \<Rightarrow> c_details c | Some x \<Rightarrow> Some x),
       c_judge := (case k_judge v of None \<Rightarrow> c_judge c | Some x \<Rightarrow> Some x),
       c_assetId := (case k_assetId v of None \<Rightarrow> c_assetId c | Some x \<Rightarrow> x),
       c_projectId := (case k_projectId v of None \<Rightarrow> c_projectId c | Some x \<Rightarrow> x)\<rparr>"

definition stored_case_patch :: "case_patch \<Rightarrow> case_patch option" where
  "stored_case_patch v =
     (case (case k_assetId v of None \<Rightarrow> Some None | Some r \<Rightarrow> map_option Some (read_reference r),
            case k_projectId v of None \<Rightarrow> Some None | Some r \<Rightarrow> map_option Some (read_reference r)) of
        (Some a, Some p) \<Rightarrow> Some (v\<lparr>k_assetId := a, k_projectId := p\<rparr>)
      | _ \<Rightarrow> None)"

definition update_cases_fk ::
  "(case_status \<Rightarrow> bool) \<Rightarrow> (case_status \<Rightarrow> case_status) \<Rightarrow> db \<Rightarrow> (case_status list \<times> db) option" where
  "update_cases_fk c f d =
     (if \<exists>r \<in> set (db_cases d). c r \<and>
            (c_assetId (f r) \<noteq> c_assetId r \<and> \<not> names_row (c_assetId (f r)) (map a_id (db_assets d)) \<or>
             c_projectId (f r) \<noteq> c_projectId r \<and>
               \<not> names_row (c_projectId (f r)) (map p_id (db_projects d)))
      then None
      else Some (map f (filter c (db_cases d)),
                 d\<lparr>db_cases := map (\<lambda>r. if c r then f r else r) (db_cases d)\<rparr>))"

definition case_PUT ::
  "(string \<Rightarrow> bool) \<Rightarrow> (string \<Rightarrow> timestamp option) \<Rightarrow> string \<Rightarrow> json option \<Rightarrow> db
     \<Rightarrow> (case_status \<times> asset option \<times> project option, string \<times> string) response \<times> db" where
  "case_PUT zuuid parseDate ident body d =
     (if \<not> uuidRegex_test ident then (Failure 400 ''Invalid case ID format'' [], d)
      else case body of
        None \<Rightarrow> (Failure 500 ''Failed to update case'' [], d)
      | Some JNull \<Rightarrow> (Failure 500 ''Failed to update case'' [], d)
      | Some b \<Rightarrow>
          (let normalized = normalizeCasePayload (members_of b);
               payload = put_field ''projectId'' (sanitize_or_null (field ''projectId'' (members_of b)))
                           (put_field ''assetId'' (sanitize_or_null (field ''assetId'' (members_of b)))
                              normalized)
           in case updateCaseStatusSchema_parse zuuid parseDate payload of
                Inl issues \<Rightarrow>
                  (Failure 400 ''Validation failed''
                     (map (\<lambda>e. (join_path (i_path e), i_message e)) issues), d)
              | Inr validatedData \<Rightarrow>
                  (case (store_uuid ident, stored_case_patch validatedData) of
                     (Some u, Some written) \<Rightarrow>
                       (case update_cases_fk (\<lambda>c. c_id c = u) (caseUpdateData written) d of
                          None \<Rightarrow> (Failure 500 ''Failed to update case'' [], d)
                        | Some (rows, d') \<Rightarrow>
                            (case first_row rows of
                               None \<Rightarrow> (Failure 404 ''Case not found'' [], d')
                             | Some updatedCase \<Rightarrow>
                                 (Success 200
                                    (updatedCase,
                                     (case c_assetId updatedCase of None \<Rightarrow> None
                                      | Some a \<Rightarrow> first_row (select_where (\<lambda>x. a_id x = a) (db_assets d'))),
                                     (case c_projectId updatedCase of None \<Rightarrow> None
                                      | Some p \<Rightarrow> first_row (select_where (\<lambda>x. p_id x = p) (db_projects d')))),
                                  d')))
                   | _ \<Rightarrow> (Failure 500 ''Failed to update case'' [], d))))"

section \<open>A small store\<close>

text \<open>
  Two assets, three projects, a case and a note, used to run the handlers on concrete
  requests. The second asset carries the first one's identifier in its name. The
  identifiers are version 4 uuids in the store's spelling; \<open>upper_P\<close> is the first
  project's identifier as a client may spell it.
\<close>

definition id_A :: string where "id_A = ''11111111-1111-4111-8111-111111111111''"
definition id_B :: string where "id_B = ''22222222-2222-4222-8222-222222222222''"
definition id_P :: string where "id_P = ''aaaaaaaa-aaaa-4aaa-8aaa-aaaaaaaaaaaa''"
definition id_Q :: string where "id_Q = ''bbbbbbbb-bbbb-4bbb-8bbb-bbbbbbbbbbbb''"
definition id_U :: string where "id_U = ''cccccccc-cccc-4ccc-8ccc-cccccccccccc''"
definition id_C :: string where "id_C = ''dddddddd-dddd-4ddd-8ddd-dddddddddddd''"
definition id_N :: string where "id_N = ''eeeeeeee-eeee-4eee-8eee-eeeeeeeeeeee''"
definition id_new :: string where "id_new = ''ffffffff-ffff-4fff-8fff-ffffffffffff''"
definition upper_P :: string where "upper_P = ''AAAAAAAA-AAAA-4AAA-8AAA-AAAAAAAAAAAA''"

definition asset_A :: asset where
  "asset_A =
     \<lparr>a_id = id_A, a_name = ''Lot 7'', a_description = ''Corner lot'', a_taxDecNo = ''TD-1'',
      a_declaredOwner = ''R. Cruz'', a_marketValue = ''100000'', a_assessedValue = ''80000'',
      a_carStatus = None, a_lat = 14.5, a_lng = 121, a_status = ''active'',
      a_address = ''Main St'', a_taxDeclarationNo = ''TDN-1'', a_tctNo = ''T-1'',
      a_areaPerSqM = ''250'', a_locationOfPropery = ''Pasig'', a_barangay = ''Ugong'',
      a_bidder = ''LGU'', a_auctionDate = 1000, a_dateOfCertificationOfSale = 2000,
      a_entryNo = ''E-1'', a_detailsShortUpdateLog = ''none'', a_createdAt = 10, a_updatedAt = 10\<rparr>"

definition asset_B :: asset where
  "asset_B = asset_A\<lparr>a_id := id_B, a_name := ''copy of 11111111-1111-4111-8111-111111111111'',
                      a_createdAt := 20, a_updatedAt := 20\<rparr>"

definition project_P :: project where
  "project_P =
     \<lparr>p_id = id_P, p_name = ''Survey'', p_description = None, p_status = ''active'',
      p_assetId = Some id_A, p_startDate = None, p_endDate = None, p_assignedAt = Some 50,
      p_createdAt = 30, p_updatedAt = 50\<rparr>"

definition project_Q :: project where
  "project_Q = project_P\<lparr>p_id := id_Q, p_name := ''Fencing'', p_assetId := Some id_B, p_createdAt := 40\<rparr>"

definition project_U :: project where
  "project_U = project_P\<lparr>p_id := id_U, p_name := ''Titling'', p_assetId := None,
                          p_assignedAt := None, p_createdAt := 45\<rparr>"

definition case_C :: case_status where
  "case_C = \<lparr>c_id = id_C, c_rtc = ''RTC 12'', c_case_no = ''CV-100'', c_lastUpdatedAt = 60,
             c_details = None, c_judge = None, c_assetId = Some id_A, c_projectId = None\<rparr>"

definition note_N :: note_row where
  "note_N = \<lparr>n_id = id_N, n_content = ''Check title'', n_assetId = Some id_A, n_projectId = None,
             n_caseId = None, n_createdAt = 70, n_updatedAt = 70\<rparr>"

definition store :: db where
  "store = \<lparr>db_assets = [asset_A, asset_B], db_projects = [project_P, project_Q, project_U],
            db_cases = [case_C], db_notes = [note_N]\<rparr>"

text \<open>Storage faults: none, and one that hits the second statement of a request.\<close>

definition no_fault :: "nat \<Rightarrow> bool" where
  "no_fault n = False"

definition second_statement_fails :: "nat \<Rightarrow> bool" where
  "second_statement_fails n = (n = 1)"

text \<open>An \<^verbatim>\<open>ids\<close> parameter with one well-formed and one malformed identifier.\<close>

definition mixed_ids :: string where
  "mixed_ids = ''aaaaaaaa-aaaa-4aaa-8aaa-aaaaaaaaaaaa, lot''"

text \<open>
  A validator library for the concrete requests: its uuid test takes the identifiers of
  RFC 9562 (a version digit from 1 to 8 and a variant digit from 8 to b, or the nil or
  the max uuid), and its date readers take no string.
\<close>

definition rfc_uuid :: "string \<Rightarrow> bool" where
  "rfc_uuid s \<longleftrightarrow>
     uuidRegex_test s \<and>
     (s ! 14 \<in> set ''12345678'' \<and> s ! 19 \<in> set ''89abAB'' \<or>
      s = ''00000000-0000-0000-0000-000000000000'' \<or>
      s = ''ffffffff-ffff-ffff-ffff-ffffffffffff'')"

definition no_date_strings :: "string \<Rightarrow> timestamp option" where
  "no_date_strings s = None"

text \<open>
  Two update payloads without an \<^verbatim>\<open>assetId\<close>: a new name for one project, and the bulk
  form's status change as the bulk operations dialog sends it.
\<close>

definition rename_payload :: json where
  "rename_payload = JObj [(''name'', JStr ''Survey 2'')]"

definition bulk_status_payload :: json where
  "bulk_status_payload =
     JObj [(''projects'', JArr [JObj [(''id'', JStr id_P), (''status'', JStr ''completed'')]])]"





text \<open>A complete asset payload with the coordinates left open.\<close>

definition asset_payload :: "real \<Rightarrow> real \<Rightarrow> json" where
  "asset_payload x y =
     JObj [(''name'', JStr ''Lot 7''), (''description'', JStr ''Corner lot''),
           (''taxDecNo'', JStr ''TD-1''), (''declaredOwner'', JStr ''R. Cruz''),
           (''marketValue'', JStr ''100000''), (''assessedValue'', JStr ''80000''),
           (''location'', JObj [(''lat'', JNum x), (''lng'', JNum y)]),
           (''address'', JStr ''Main St''), (''taxDeclarationNo'', JStr ''TDN-1''),
           (''tctNo'', JStr ''T-1''), (''areaPerSqM'', JStr ''250''),
           (''locationOfPropery'', JStr ''Pasig''), (''barangay'', JStr ''Ugong''),
           (''bidder'', JStr ''LGU''), (''auctionDate'', JNum 1000),
           (''dateOfCertificationOfSale'', JNum 2000), (''entryNo'', JStr ''E-1''),
           (''detailsShortUpdateLog'', JStr ''none'')]"

section \<open>Properties\<close>

subsection \<open>Lists and rows\<close>

lemma first_row_filter: "first_row (filter P xs) = find P xs"
  by (induction xs) (auto simp: first_row_def)

lemma find_None_bex: "find P xs = None \<longleftrightarrow> \<not> (\<exists>x\<in>set xs. P x)"
  by (induction xs) auto

lemma first_row_map: "first_row (map f xs) = map_option f (first_row xs)"
  by (cases xs) (auto simp: first_row_def)

subsection \<open>Identifiers\<close>

text \<open>
  An identifier that passes the handlers' test is one the store reads, as the same
  identifier in lower case.
\<close>

lemma hex_not_punct: "is_hex c \<Longrightarrow> c \<noteq> CHR ''-''" "is_hex c \<Longrightarrow> c \<noteq> CHR ''{''"
  by (auto simp: is_hex_def)

lemma lower_hyphen: "lower_char (CHR ''-'') = CHR ''-''"
  by (simp add: lower_char_def)

lemma length36:
  assumes "length (s :: 'a list) = 36"
  obtains c0 c1 c2 c3 c4 c5 c6 c7 c8 c9 c10 c11 c12 c13 c14 c15 c16 c17 c18 c19 c20 c21 c22 c23 c24 c25 c26 c27 c28 c29 c30 c31 c32 c33 c34 c35 where "s = [c0, c1, c2, c3, c4, c5, c6, c7, c8, c9, c10, c11, c12, c13, c14, c15, c16, c17, c18, c19, c20, c21, c22, c23, c24, c25, c26, c27, c28, c29, c30, c31, c32, c33, c34, c35]"
proof -
  from assms show ?thesis
    by (auto simp: eval_nat_numeral length_Suc_conv intro: that)
qed

lemma store_uuid_valid:
  assumes "uuidRegex_test s"
  shows "store_uuid s = Some (toLowerCase s)"
proof -
  from assms have "length s = 36" by (simp add: uuidRegex_test_def)
  then obtain c0 c1 c2 c3 c4 c5 c6 c7 c8 c9 c10 c11 c12 c13 c14 c15 c16 c17 c18 c19 c20 c21 c22 c23 c24 c25 c26 c27 c28 c29 c30 c31 c32 c33 c34 c35 where s: "s = [c0, c1, c2, c3, c4, c5, c6, c7, c8, c9, c10, c11, c12, c13, c14, c15, c16, c17, c18, c19, c20, c21, c22, c23, c24, c25, c26, c27, c28, c29, c30, c31, c32, c33, c34, c35]"
    by (rule length36)
  from assms show ?thesis
    unfolding s
    by (simp add: uuidRegex_test_def store_uuid_def toLowerCase_def hex_not_punct lower_hyphen
        eval_nat_numeral)
qed

lemma uuid_ids:
  "uuidRegex_test id_A" "uuidRegex_test id_B" "uuidRegex_test id_P" "uuidRegex_test id_Q"
  "uuidRegex_test id_U" "uuidRegex_test id_C" "uuidRegex_test id_N" "uuidRegex_test id_new"
  "uuidRegex_test upper_P"
  by (simp_all add: uuidRegex_test_def is_hex_def id_A_def id_B_def id_P_def id_Q_def id_U_def
        id_C_def id_N_def id_new_def upper_P_def)

lemma lower_ids:
  "toLowerCase id_A = id_A" "toLowerCase id_B = id_B" "toLowerCase id_P = id_P"
  "toLowerCase id_Q = id_Q" "toLowerCase id_U = id_U" "toLowerCase id_C = id_C"
  "toLowerCase id_N = id_N" "toLowerCase id_new = id_new" "toLowerCase upper_P = id_P"
  by (simp_all add: toLowerCase_def lower_char_def id_A_def id_B_def id_P_def id_Q_def id_U_def
        id_C_def id_N_def id_new_def upper_P_def)

lemma ids_distinct:
  "id_A \<noteq> id_B" "id_B \<noteq> id_A" "id_P \<noteq> id_Q" "id_P \<noteq> id_U" "id_Q \<noteq> id_P" "id_Q \<noteq> id_U"
  "id_U \<noteq> id_P" "id_U \<noteq> id_Q"
  by (simp_all add: id_A_def id_B_def id_P_def id_Q_def id_U_def)

subsection \<open>Trimming\<close>








text \<open>A string without white space at either end is its own trimmed form.\<close>

lemma trim_ids:
  "trim id_A = id_A" "trim id_B = id_B" "trim id_P = id_P" "trim ''lot'' = ''lot''"
  "trim ''Check'' = ''Check''" "trim '' Unassigned '' = ''Unassigned''"
  by (simp_all add: trim_def ws1_def ws2_def ws3_def id_A_def id_B_def id_P_def)

subsection \<open>Numbers\<close>




subsection \<open>Assignment\<close>

text \<open>
  C10. For every existing asset and every existing project, assigning succeeds and
  overwrites the project's assignment whatever it was: the asset reference becomes this
  asset and the assignment time becomes the time of the request. The prior reference and
  time of the project do not occur in the result: a project already assigned to this asset
  gets a fresh time, a project assigned to another asset is moved without an error. The
  rows are found by the identifiers as the store spells them, in lower case, however the
  request spells them.
\<close>

theorem assign_overwrites:
  assumes "uuidRegex_test aid" and "uuidRegex_test pid"
    and "find (\<lambda>a. a_id a = toLowerCase aid) (db_assets d) = Some a"
    and "find (\<lambda>p. p_id p = toLowerCase pid) (db_projects d) = Some p"
  shows "assign_PUT now aid pid d =
           (Success 200 (Some (p\<lparr>p_assetId := Some (toLowerCase aid), p_assignedAt := Some now,
                                  p_updatedAt := now\<rparr>), Some a),
            d\<lparr>db_projects := map (\<lambda>q. if p_id q = toLowerCase pid
                 then q\<lparr>p_assetId := Some (toLowerCase aid), p_assignedAt := Some now,
                        p_updatedAt := now\<rparr> else q)
                 (db_projects d)\<rparr>)"
  using assms
  by (simp add: assign_PUT_def store_uuid_valid select_where_def update_projects_def
      first_row_filter first_row_map)

text \<open>
  On the small store: the project assigned to the first asset at time 50 is assigned to it
  again at time 99, and comes back with assignment time 99.
\<close>

theorem assign_overwrites_witness:
  "uuidRegex_test id_A \<and> uuidRegex_test id_P \<and>
   find (\<lambda>a. a_id a = id_A) (db_assets store) = Some asset_A \<and>
   find (\<lambda>p. p_id p = id_P) (db_projects store) = Some project_P \<and>
   p_assetId project_P = Some id_A \<and> p_assignedAt project_P = Some 50 \<and>
   fst (assign_PUT 99 id_A id_P store) =
     Success 200 (Some (project_P\<lparr>p_assetId := Some id_A, p_assignedAt := Some 99, p_updatedAt := 99\<rparr>),
                  Some asset_A)"
proof -
  have a: "find (\<lambda>a. a_id a = toLowerCase id_A) (db_assets store) = Some asset_A"
    by (simp add: store_def asset_A_def lower_ids)
  have p: "find (\<lambda>p. p_id p = toLowerCase id_P) (db_projects store) = Some project_P"
    by (simp add: store_def project_P_def lower_ids)
  show ?thesis
    using assign_overwrites[OF uuid_ids(1) uuid_ids(3) a p, of 99] a p uuid_ids
    by (simp add: project_P_def lower_ids)
qed

text \<open>
  C7. With well-formed identifiers, unassigning answers 404 and leaves the store as it
  was whenever no project with this identifier references this asset, which includes a
  project with no asset at all; otherwise it answers with the project, its asset reference
  and assignment time both null. The identifiers are compared as uuids: a request may
  spell them in upper case. The handler is a total function: it always answers.
\<close>

theorem unassign_behaviour:
  assumes "uuidRegex_test aid" and "uuidRegex_test pid"
  shows "unassign_DELETE now aid pid d =
     (if \<exists>p\<in>set (db_projects d). p_id p = toLowerCase pid \<and> p_assetId p = Some (toLowerCase aid)
      then (Success 200
              (map_option (\<lambda>p. p\<lparr>p_assetId := None, p_assignedAt := None, p_updatedAt := now\<rparr>)
                 (find (\<lambda>p. p_id p = toLowerCase pid) (db_projects d)), None),
            d\<lparr>db_projects := map (\<lambda>q. if p_id q = toLowerCase pid
                 then q\<lparr>p_assetId := None, p_assignedAt := None, p_updatedAt := now\<rparr> else q)
                 (db_projects d)\<rparr>)
      else (Failure 404 ''Project not found or not assigned to this asset'' [], d))"
proof -
  let ?c = "\<lambda>p. p_id p = toLowerCase pid \<and> p_assetId p = Some (toLowerCase aid)"
  have sel: "first_row (select_where ?c (db_projects d)) = find ?c (db_projects d)"
    by (simp add: select_where_def first_row_filter)
  have ids: "store_uuid pid = Some (toLowerCase pid)" "store_uuid aid = Some (toLowerCase aid)"
    using assms by (simp_all add: store_uuid_valid)
  show ?thesis
  proof (cases "find ?c (db_projects d)")
    case None
    moreover from None have "\<not> (\<exists>p\<in>set (db_projects d). ?c p)"
      by (simp add: find_None_bex)
    ultimately show ?thesis
      using assms unfolding unassign_DELETE_def ids prod.case option.case sel by simp
  next
    case (Some p)
    moreover from Some have "\<exists>p\<in>set (db_projects d). ?c p"
      using find_None_bex[of ?c "db_projects d"] by auto
    ultimately show ?thesis
      using assms unfolding unassign_DELETE_def ids prod.case option.case sel
      by (simp add: update_projects_def first_row_filter first_row_map)
  qed
qed

text \<open>
  On the small store: the assigned project is unassigned, also when the request spells its
  identifier in upper case; the project without an asset and the project of the other
  asset are both answered with 404 and the store is untouched.
\<close>

theorem unassign_behaviour_witness:
  "uuidRegex_test id_A \<and> uuidRegex_test id_P \<and> uuidRegex_test id_U \<and> uuidRegex_test id_Q \<and>
   uuidRegex_test upper_P \<and>
   (\<exists>p\<in>set (db_projects store). p_id p = id_P \<and> p_assetId p = Some id_A) \<and>
   fst (unassign_DELETE 99 id_A id_P store) =
     Success 200 (Some (project_P\<lparr>p_assetId := None, p_assignedAt := None, p_updatedAt := 99\<rparr>), None) \<and>
   fst (unassign_DELETE 99 id_A upper_P store) =
     Success 200 (Some (project_P\<lparr>p_assetId := None, p_assignedAt := None, p_updatedAt := 99\<rparr>), None) \<and>
   \<not> (\<exists>p\<in>set (db_projects store). p_id p = id_U \<and> p_assetId p = Some id_A) \<and>
   unassign_DELETE 99 id_A id_U store =
     (Failure 404 ''Project not found or not assigned to this asset'' [], store) \<and>
   unassign_DELETE 99 id_A id_Q store =
     (Failure 404 ''Project not found or not assigned to this asset'' [], store)"
proof -
  have ps: "db_projects store = [project_P, project_Q, project_U]"
    by (simp add: store_def)
  have f: "p_id project_P = id_P" "p_assetId project_P = Some id_A"
    "p_id project_Q = id_Q" "p_assetId project_Q = Some id_B"
    "p_id project_U = id_U" "p_assetId project_U = None"
    by (simp_all add: project_P_def project_Q_def project_U_def)
  show ?thesis
    using unassign_behaviour[OF uuid_ids(1) uuid_ids(3), of 99 store]
      unassign_behaviour[OF uuid_ids(1) uuid_ids(5), of 99 store]
      unassign_behaviour[OF uuid_ids(1) uuid_ids(4), of 99 store]
      unassign_behaviour[OF uuid_ids(1) uuid_ids(9), of 99 store]
      uuid_ids
    by (simp add: ps f ids_distinct lower_ids)
qed

subsection \<open>Deleting an asset\<close>

lemma refers_to_deleted:
  "refers_to (map a_id (filter (\<lambda>a. a_id a = ident) as)) r \<longleftrightarrow>
     r = Some ident \<and> (\<exists>a\<in>set as. a_id a = ident)"
  by (cases r) (auto simp: refers_to_def)

lemma unlinked_no_reference:
  "map (\<lambda>p. if refers_to (map a_id (filter (\<lambda>a. a_id a = ident) as)) (p_assetId p)
             then p\<lparr>p_assetId := None\<rparr> else p)
       (map (\<lambda>p. if p_assetId p = Some ident then p\<lparr>p_assetId := None, p_assignedAt := None\<rparr> else p) ps)
   = map (\<lambda>p. if p_assetId p = Some ident then p\<lparr>p_assetId := None, p_assignedAt := None\<rparr> else p) ps"
  by (induction ps) (auto simp: refers_to_deleted)

lemma refers_to_nil: "refers_to [] r = False"
  by (cases r) (simp_all add: refers_to_def)

lemma delete_nothing:
  assumes "\<not> (\<exists>a\<in>set (db_assets d). c a)"
  shows "delete_assets c d = ([], d)"
proof -
  have "filter c (db_assets d) = []" using assms by (simp add: filter_empty_conv)
  moreover have "filter (\<lambda>a. \<not> c a) (db_assets d) = db_assets d"
    using assms by (simp add: filter_id_conv)
  ultimately show ?thesis
    by (simp add: delete_assets_def refers_to_nil)
qed

lemma store_rows:
  "db_assets store = [asset_A, asset_B]" "db_projects store = [project_P, project_Q, project_U]"
  "db_cases store = [case_C]" "db_notes store = [note_N]"
  by (simp_all add: store_def)

lemma row_fields:
  "a_id asset_A = id_A" "a_id asset_B = id_B"
  "p_id project_P = id_P" "p_assetId project_P = Some id_A" "p_assignedAt project_P = Some 50"
  "p_id project_Q = id_Q" "p_assetId project_Q = Some id_B" "p_assignedAt project_Q = Some 50"
  "p_id project_U = id_U" "p_assetId project_U = None" "p_assignedAt project_U = None"
  "c_id case_C = id_C" "c_assetId case_C = Some id_A" "c_projectId case_C = None"
  "n_id note_N = id_N" "n_assetId note_N = Some id_A" "n_projectId note_N = None"
  "n_caseId note_N = None"
  by (simp_all add: asset_A_def asset_B_def project_P_def project_Q_def project_U_def
        case_C_def note_N_def)

text \<open>
  C4. When the asset exists and both statements of the delete go through, the asset row is
  gone, every project that referenced it has its asset reference and its assignment time
  null, every case and every note that referenced it has its asset reference null, and
  nothing else changes: the tables of projects, cases and notes keep all their rows, in
  place, with every other field as it was. \<open>u\<close> is the identifier of the request in the
  store's spelling.
\<close>

theorem asset_delete_cascade:
  fixes ident u
  defines "u \<equiv> toLowerCase ident"
  assumes "uuidRegex_test ident"
    and "find (\<lambda>a. a_id a = u) (db_assets d) = Some a"
    and "\<not> fails 0" and "\<not> fails 1"
  shows "asset_DELETE fails ident d =
           (Success 200 a,
            d\<lparr>db_assets := filter (\<lambda>x. a_id x \<noteq> u) (db_assets d),
              db_projects := map (\<lambda>p. if p_assetId p = Some u
                                        then p\<lparr>p_assetId := None, p_assignedAt := None\<rparr> else p)
                               (db_projects d),
              db_cases := map (\<lambda>c. if c_assetId c = Some u then c\<lparr>c_assetId := None\<rparr> else c)
                            (db_cases d),
              db_notes := map (\<lambda>n. if n_assetId n = Some u then n\<lparr>n_assetId := None\<rparr> else n)
                            (db_notes d)\<rparr>)"
proof -
  from assms(3) have ex: "\<exists>a\<in>set (db_assets d). a_id a = u"
    using find_None_bex[of "\<lambda>a. a_id a = u" "db_assets d"] by auto
  have r: "store_uuid ident = Some u"
    using assms(2) by (simp add: store_uuid_valid u_def)
  show ?thesis
    using assms(2-) ex
    by (simp add: asset_DELETE_def r update_projects_def delete_assets_def Let_def
        first_row_filter unlinked_no_reference refers_to_deleted)
qed

text \<open>On the small store, deleting the first asset.\<close>

theorem asset_delete_cascade_witness:
  "uuidRegex_test id_A \<and> find (\<lambda>a. a_id a = id_A) (db_assets store) = Some asset_A \<and>
   \<not> no_fault 0 \<and> \<not> no_fault 1 \<and>
   asset_DELETE no_fault id_A store =
     (Success 200 asset_A,
      \<lparr>db_assets = [asset_B],
       db_projects = [project_P\<lparr>p_assetId := None, p_assignedAt := None\<rparr>, project_Q, project_U],
       db_cases = [case_C\<lparr>c_assetId := None\<rparr>],
       db_notes = [note_N\<lparr>n_assetId := None\<rparr>]\<rparr>)"
proof -
  have a: "find (\<lambda>a. a_id a = toLowerCase id_A) (db_assets store) = Some asset_A"
    by (simp add: store_rows row_fields lower_ids)
  have n: "\<not> no_fault 0" "\<not> no_fault 1"
    by (simp_all add: no_fault_def)
  show ?thesis
    using asset_delete_cascade[OF uuid_ids(1) a n] a n uuid_ids(1)
    by (simp add: store_rows row_fields ids_distinct store_def lower_ids)
qed

text \<open>
  C3 as stated does not hold. When the second statement throws, the handler answers 500
  after the first statement has been applied: the project is unlinked, the asset row is
  still there, and the case still references it.
\<close>

theorem asset_delete_partial_counterexample:
  "fst (asset_DELETE second_statement_fails id_A store) = Failure 500 ''Failed to delete asset'' [] \<and>
   db_assets (snd (asset_DELETE second_statement_fails id_A store)) = [asset_A, asset_B] \<and>
   db_projects (snd (asset_DELETE second_statement_fails id_A store)) =
     [project_P\<lparr>p_assetId := None, p_assignedAt := None\<rparr>, project_Q, project_U] \<and>
   p_assetId project_P = Some id_A \<and>
   db_cases (snd (asset_DELETE second_statement_fails id_A store)) = [case_C] \<and>
   c_assetId case_C = Some id_A"
  by (simp add: asset_DELETE_def second_statement_fails_def update_projects_def uuid_ids
      store_uuid_valid lower_ids store_rows row_fields ids_distinct)

text \<open>
  C3, amended. The delete is two statements with no transaction. If the first throws,
  nothing is applied. If the second throws, the answer is 500 and the projects that
  referenced the asset stay unlinked, while the asset row and the references of cases and
  notes remain. If neither throws and the asset exists, the row is deleted and every
  reference to it is null; if it does not exist the answer is 404. \<open>u\<close> is the identifier
  of the request in the store's spelling.
\<close>

theorem asset_delete_two_statements:
  fixes ident u
  defines "u \<equiv> toLowerCase ident"
  assumes "uuidRegex_test ident"
  shows "asset_DELETE fails ident d =
     (if fails 0 then (Failure 500 ''Failed to delete asset'' [], d)
      else if fails 1
      then (Failure 500 ''Failed to delete asset'' [],
            d\<lparr>db_projects := map (\<lambda>p. if p_assetId p = Some u
                                      then p\<lparr>p_assetId := None, p_assignedAt := None\<rparr> else p)
                             (db_projects d)\<rparr>)
      else case find (\<lambda>a. a_id a = u) (db_assets d) of
        None \<Rightarrow> (Failure 404 ''Asset not found'' [],
                 d\<lparr>db_projects := map (\<lambda>p. if p_assetId p = Some u
                                      then p\<lparr>p_assetId := None, p_assignedAt := None\<rparr> else p)
                             (db_projects d)\<rparr>)
      | Some a \<Rightarrow>
          (Success 200 a,
           d\<lparr>db_assets := filter (\<lambda>x. a_id x \<noteq> u) (db_assets d),
             db_projects := map (\<lambda>p. if p_assetId p = Some u
                                       then p\<lparr>p_assetId := None, p_assignedAt := None\<rparr> else p)
                              (db_projects d),
             db_cases := map (\<lambda>c. if c_assetId c = Some u then c\<lparr>c_assetId := None\<rparr> else c)
                           (db_cases d),
             db_notes := map (\<lambda>n. if n_assetId n = Some u then n\<lparr>n_assetId := None\<rparr> else n)
                           (db_notes d)\<rparr>))"
proof (cases "find (\<lambda>a. a_id a = u) (db_assets d)")
  case None
  let ?d1 = "d\<lparr>db_projects := map (\<lambda>p. if p_assetId p = Some u
                 then p\<lparr>p_assetId := None, p_assignedAt := None\<rparr> else p) (db_projects d)\<rparr>"
  have r: "store_uuid ident = Some u"
    using assms(2) by (simp add: store_uuid_valid u_def)
  from None have "\<not> (\<exists>a\<in>set (db_assets ?d1). a_id a = u)"
    by (simp add: find_None_bex)
  then have "delete_assets (\<lambda>a. a_id a = u) ?d1 = ([], ?d1)"
    by (rule delete_nothing)
  with None assms(2) show ?thesis
    by (simp add: asset_DELETE_def r update_projects_def first_row_def)
next
  case (Some a)
  have r: "store_uuid ident = Some u"
    using assms(2) by (simp add: store_uuid_valid u_def)
  from Some have ex: "\<exists>a\<in>set (db_assets d). a_id a = u"
    using find_None_bex[of "\<lambda>a. a_id a = u" "db_assets d"] by auto
  with Some assms(2) show ?thesis
    by (simp add: asset_DELETE_def r update_projects_def delete_assets_def Let_def
        first_row_filter unlinked_no_reference refers_to_deleted)
qed

text \<open>On the small store, with the second statement failing.\<close>

theorem asset_delete_two_statements_witness:
  "uuidRegex_test id_A \<and> \<not> second_statement_fails 0 \<and> second_statement_fails 1 \<and>
   asset_DELETE second_statement_fails id_A store =
     (Failure 500 ''Failed to delete asset'' [],
      store\<lparr>db_projects := [project_P\<lparr>p_assetId := None, p_assignedAt := None\<rparr>, project_Q, project_U]\<rparr>)"
  using asset_delete_two_statements[OF uuid_ids(1), of second_statement_fails store] uuid_ids(1)
  by (simp add: second_statement_fails_def store_rows row_fields ids_distinct lower_ids)

subsection \<open>Pagination\<close>









subsection \<open>The asset filter of the project list\<close>

lemma asset_filter_modes:
  assumes "trim v \<noteq> []"
  shows "asset_filter v =
     (if toLowerCase (trim v) \<noteq> ''unassigned'' \<and> toLowerCase (trim v) \<noteq> ''assigned'' \<and>
         store_uuid (trim v) = None
      then None
      else Some
        [\<lambda>(p, a). if toLowerCase (trim v) = ''unassigned'' then p_assetId p = None
                   else if toLowerCase (trim v) = ''assigned'' then p_assetId p \<noteq> None
                   else p_assetId p = store_uuid (trim v) \<or>
                        (\<exists>a'. a = Some a' \<and> ilike (a_name a') (''%'' @ trim v @ ''%''))])"
proof -
  have "(case a of None \<Rightarrow> False | Some a' \<Rightarrow> ilike (a_name a') pat) =
        (\<exists>a'. a = Some a' \<and> ilike (a_name a') pat)" for a :: "asset option" and pat
    by (cases a) simp_all
  then show ?thesis
    using assms unfolding asset_filter_def Let_def
    by (auto simp: fun_eq_iff split: option.splits)
qed













subsection \<open>Malformed identifiers\<close>

lemma lot_filter:
  "toLowerCase ''lot'' = ''lot''" "\<not> uuidRegex_test ''lot''" "store_uuid ''lot'' = None"
  by (simp_all add: toLowerCase_def lower_char_def uuidRegex_test_def store_uuid_def
        eval_nat_numeral)

lemma split_example:
  "map trim (split_on (CHR '','') mixed_ids) = [id_P, ''lot'']" "mixed_ids \<noteq> []"
  by (simp_all add: trim_def ws1_def ws2_def ws3_def id_P_def mixed_ids_def)

text \<open>
  C5 as stated does not hold. The asset filter of the project list is not tested against
  the identifier format: the value \<^verbatim>\<open>lot\<close> is no identifier, it goes into the query, the
  store cannot read it, and the request is answered with 500, which is no client error.
\<close>

theorem unvalidated_query_filter_counterexample:
  "\<not> uuidRegex_test ''lot'' \<and>
   projects_GET None None (Some ''lot'') None None store = Failure 500 ''Failed to fetch projects'' []"
proof -
  have t: "trim ''lot'' \<noteq> []" by (simp add: trim_ids)
  have "asset_filter ''lot'' = None"
    by (simp add: asset_filter_modes[OF t] trim_ids lot_filter)
  then have "project_conditions None (Some ''lot'') None = None"
    by (simp add: project_conditions_def)
  then show ?thesis
    by (simp add: projects_GET_def lot_filter)
qed

text \<open>
  C5, amended. An identifier in path position that does not match the identifier format
  is answered with 400 by every operation on one asset, project, case, note or assignment
  and on the projects of an asset, and so is an \<^verbatim>\<open>ids\<close> parameter of one of the three
  bulk deletes with a malformed piece; the answer is the same for every store and the
  store is returned as it was. The three operations that read the body before they test
  the identifier do so for a body that parses, and answer 500 for one that does not, the
  store untouched as well. The asset filter of the project list is not part of this: it
  is used in the query as it is given.
\<close>

theorem malformed_identifier_rejected:
  assumes "\<not> uuidRegex_test ident"
  shows "asset_GET ident d = Failure 400 ''Invalid asset ID format'' [] \<and>
         asset_PUT parseDate now ident (Some body) d = (Failure 400 ''Invalid asset ID format'' [], d) \<and>
         asset_PUT parseDate now ident None d = (Failure 500 ''Failed to update asset'' [], d) \<and>
         asset_DELETE fails ident d = (Failure 400 ''Invalid asset ID format'' [], d) \<and>
         asset_projects_GET ident d = Failure 400 ''Invalid asset ID format'' [] \<and>
         asset_projects_POST datetime newId now ident (Some body) d =
           (Failure 400 ''Invalid asset ID format'' [], d) \<and>
         asset_projects_POST datetime newId now ident None d =
           (Failure 500 ''Failed to create project for asset'' [], d) \<and>
         project_GET ident d = Failure 400 ''Invalid project ID format'' [] \<and>
         project_PUT zuuid datetime now ident (Some body) d =
           (Failure 400 ''Invalid project ID format'' [], d) \<and>
         project_PUT zuuid datetime now ident None d = (Failure 500 ''Failed to update project'' [], d) \<and>
         project_DELETE ident d = (Failure 400 ''Invalid project ID format'' [], d) \<and>
         case_GET ident d = Failure 400 ''Invalid case ID format'' [] \<and>
         case_PUT zuuid parseDate ident any_body d = (Failure 400 ''Invalid case ID format'' [], d) \<and>
         case_DELETE ident d = (Failure 400 ''Invalid case ID format'' [], d) \<and>
         note_DELETE ident d = (Failure 400 ''Invalid note ID format'' [], d) \<and>
         assignment_GET ident other d = Failure 400 ''Invalid ID format'' [] \<and>
         assignment_GET other ident d = Failure 400 ''Invalid ID format'' [] \<and>
         assign_PUT now ident other d = (Failure 400 ''Invalid ID format'' [], d) \<and>
         assign_PUT now other ident d = (Failure 400 ''Invalid ID format'' [], d) \<and>
         unassign_DELETE now ident other d = (Failure 400 ''Invalid ID format'' [], d) \<and>
         unassign_DELETE now other ident d = (Failure 400 ''Invalid ID format'' [], d) \<and>
         (ids \<noteq> [] \<and> ident \<in> set (map trim (split_on (CHR '','') ids)) \<longrightarrow>
            projects_bulk_DELETE (Some ids) d =
              (Failure 400 ''Invalid project IDs provided''
                 (filter (\<lambda>i. \<not> uuidRegex_test i) (map trim (split_on (CHR '','') ids))), d) \<and>
            assets_DELETE (Some ids) d =
              (Failure 400 ''Invalid asset IDs provided''
                 (filter (\<lambda>i. \<not> uuidRegex_test i) (map trim (split_on (CHR '','') ids))), d) \<and>
            assets_bulk_DELETE (Some ids) d =
              (Failure 400 ''Invalid asset IDs provided''
                 (filter (\<lambda>i. \<not> uuidRegex_test i) (map trim (split_on (CHR '','') ids))), d))"
proof -
  have bulk: "projects_bulk_DELETE (Some ids) d =
              (Failure 400 ''Invalid project IDs provided''
                 (filter (\<lambda>i. \<not> uuidRegex_test i) (map trim (split_on (CHR '','') ids))), d) \<and>
            assets_DELETE (Some ids) d =
              (Failure 400 ''Invalid asset IDs provided''
                 (filter (\<lambda>i. \<not> uuidRegex_test i) (map trim (split_on (CHR '','') ids))), d) \<and>
            assets_bulk_DELETE (Some ids) d =
              (Failure 400 ''Invalid asset IDs provided''
                 (filter (\<lambda>i. \<not> uuidRegex_test i) (map trim (split_on (CHR '','') ids))), d)"
    if "ids \<noteq> []" and "ident \<in> set (map trim (split_on (CHR '','') ids))"
  proof -
    from that(2) assms
    have "filter (\<lambda>i. \<not> uuidRegex_test i) (map trim (split_on (CHR '','') ids)) \<noteq> []"
      unfolding filter_empty_conv by blast
    with that(1) show ?thesis
      by (simp add: projects_bulk_DELETE_def assets_DELETE_def assets_bulk_DELETE_def
          or_default_def Let_def)
  qed
  have one: "asset_GET ident d = Failure 400 ''Invalid asset ID format'' []"
    "asset_PUT parseDate now ident (Some body) d = (Failure 400 ''Invalid asset ID format'' [], d)"
    "asset_PUT parseDate now ident None d = (Failure 500 ''Failed to update asset'' [], d)"
    "asset_DELETE fails ident d = (Failure 400 ''Invalid asset ID format'' [], d)"
    "asset_projects_GET ident d = Failure 400 ''Invalid asset ID format'' []"
    "asset_projects_POST datetime newId now ident (Some body) d =
       (Failure 400 ''Invalid asset ID format'' [], d)"
    "asset_projects_POST datetime newId now ident None d =
       (Failure 500 ''Failed to create project for asset'' [], d)"
    using assms
    by (simp_all add: asset_GET_def asset_PUT_def asset_DELETE_def asset_projects_GET_def
        asset_projects_POST_def)
  have two: "project_GET ident d = Failure 400 ''Invalid project ID format'' []"
    "project_PUT zuuid datetime now ident (Some body) d =
       (Failure 400 ''Invalid project ID format'' [], d)"
    "project_PUT zuuid datetime now ident None d = (Failure 500 ''Failed to update project'' [], d)"
    "project_DELETE ident d = (Failure 400 ''Invalid project ID format'' [], d)"
    "case_GET ident d = Failure 400 ''Invalid case ID format'' []"
    "case_PUT zuuid parseDate ident any_body d = (Failure 400 ''Invalid case ID format'' [], d)"
    "case_DELETE ident d = (Failure 400 ''Invalid case ID format'' [], d)"
    "note_DELETE ident d = (Failure 400 ''Invalid note ID format'' [], d)"
    using assms
    by (simp_all add: project_GET_def project_PUT_def project_DELETE_def case_GET_def
        case_PUT_def case_DELETE_def note_DELETE_def)
  have three: "assignment_GET ident other d = Failure 400 ''Invalid ID format'' []"
    "assignment_GET other ident d = Failure 400 ''Invalid ID format'' []"
    "assign_PUT now ident other d = (Failure 400 ''Invalid ID format'' [], d)"
    "assign_PUT now other ident d = (Failure 400 ''Invalid ID format'' [], d)"
    "unassign_DELETE now ident other d = (Failure 400 ''Invalid ID format'' [], d)"
    "unassign_DELETE now other ident d = (Failure 400 ''Invalid ID format'' [], d)"
    using assms
    by (simp_all add: assignment_GET_def assign_PUT_def unassign_DELETE_def)
  show ?thesis
    using bulk unfolding one two three by simp
qed

text \<open>On the small store, with the identifier \<^verbatim>\<open>lot\<close>.\<close>

theorem malformed_identifier_rejected_witness:
  "\<not> uuidRegex_test ''lot'' \<and>
   asset_GET ''lot'' store = Failure 400 ''Invalid asset ID format'' [] \<and>
   asset_DELETE no_fault ''lot'' store = (Failure 400 ''Invalid asset ID format'' [], store) \<and>
   case_PUT rfc_uuid no_date_strings ''lot'' (Some JNull) store =
     (Failure 400 ''Invalid case ID format'' [], store) \<and>
   assign_PUT 99 id_A ''lot'' store = (Failure 400 ''Invalid ID format'' [], store) \<and>
   mixed_ids \<noteq> [] \<and> ''lot'' \<in> set (map trim (split_on (CHR '','') mixed_ids)) \<and>
   projects_bulk_DELETE (Some mixed_ids) store =
     (Failure 400 ''Invalid project IDs provided'' [''lot''], store) \<and>
   assets_bulk_DELETE (Some mixed_ids) store =
     (Failure 400 ''Invalid asset IDs provided'' [''lot''], store)"
  using malformed_identifier_rejected[OF lot_filter(2), where d = store and fails = no_fault
      and now = 99 and other = id_A and ids = mixed_ids and zuuid = rfc_uuid
      and parseDate = no_date_strings and any_body = "Some JNull"]
    lot_filter(2)
  by (simp add: split_example uuid_ids)

subsection \<open>Updating a project without touching its asset\<close>

lemma parse_rename:
  "updateProjectSchema_parse zuuid datetime rename_payload =
     Inr \<lparr>u_name = Some ''Survey 2'', u_description = None, u_status = Some ''planning'',
          u_assetId = None, u_startDate = None, u_endDate = None, u_assignedAt = None\<rparr>"
  by (simp add: updateProjectSchema_parse_def rename_payload_def field_def z_name_def z_string_def
      z_enum_default_def z_uuid_or_null_def z_datetime_or_null_def z_date_object_def trim_def
      ws1_def ws2_def ws3_def)

lemma parse_status:
  "updateProjectSchema_parse zuuid datetime (JObj [(''status'', JStr ''completed'')]) =
     Inr \<lparr>u_name = None, u_description = None, u_status = Some ''completed'', u_assetId = None,
          u_startDate = None, u_endDate = None, u_assignedAt = None\<rparr>"
  by (simp add: updateProjectSchema_parse_def field_def z_name_def z_string_def z_enum_default_def
      z_enum_def z_uuid_or_null_def z_datetime_or_null_def z_date_object_def project_statuses_def)

lemma stored_patch_without_asset: "u_assetId v = None \<Longrightarrow> stored_patch v = Some v"
  by (simp add: stored_patch_def)

lemma update_P:
  assumes "u_assetId v = None"
  shows "update_projects_fk (\<lambda>p. p_id p = id_P) (projectUpdateData now v) store =
           Some ([projectUpdateData now v project_P],
                 store\<lparr>db_projects := [projectUpdateData now v project_P, project_Q, project_U]\<rparr>)"
  using assms
  by (simp add: update_projects_fk_def update_projects_def store_rows row_fields ids_distinct
      projectUpdateData_def)

lemma asset_of_P:
  assumes "p_assetId p = Some id_A" and "db_assets d = db_assets store"
  shows "associatedAsset p d = Some asset_A"
  using assms
  by (simp add: associatedAsset_def select_where_def first_row_def store_rows row_fields id_A_def)

text \<open>
  C1. The claim is that a project has an assignment time exactly when it has an asset,
  after every write, and in particular after an update whose payload leaves
  \<^verbatim>\<open>assetId\<close> out. The update handlers do not keep this: the project of the small store is
  assigned, the payload only renames it (or, in the bulk form, only changes its status),
  and the project that comes back still has its asset but no assignment time. The
  handlers write \<^verbatim>\<open>assignedAt\<close> from the payload's \<^verbatim>\<open>assetId\<close> alone, although their
  own comment speaks of the case that \<^verbatim>\<open>assetId\<close> is being updated. The renamed project
  also comes back with the default status, which the validator fills in for the status
  that the payload leaves out.
\<close>

theorem update_without_assetId_clears_assignedAt:
  "p_assetId project_P = Some id_A \<and> p_assignedAt project_P = Some 50 \<and>
   p_assetId (project_P\<lparr>p_name := ''Survey 2'', p_status := ''planning'', p_assignedAt := None,
                        p_updatedAt := now\<rparr>) = Some id_A \<and>
   p_assignedAt (project_P\<lparr>p_name := ''Survey 2'', p_status := ''planning'', p_assignedAt := None,
                           p_updatedAt := now\<rparr>) = None \<and>
   fst (project_PUT zuuid datetime now id_P (Some rename_payload) store) =
     Success 200 (project_P\<lparr>p_name := ''Survey 2'', p_status := ''planning'', p_assignedAt := None,
                            p_updatedAt := now\<rparr>,
                  Some asset_A) \<and>
   fst (projects_PUT zuuid datetime now (Some bulk_status_payload) store) =
     Success 200 [(project_P\<lparr>p_status := ''completed'', p_assignedAt := None, p_updatedAt := now\<rparr>,
                   Some asset_A)]"
proof -
  let ?v = "\<lparr>u_name = Some ''Survey 2'', u_description = None, u_status = Some ''planning'',
          u_assetId = None, u_startDate = None, u_endDate = None, u_assignedAt = None\<rparr>"
  let ?w = "\<lparr>u_name = None, u_description = None, u_status = Some ''completed'', u_assetId = None,
          u_startDate = None, u_endDate = None, u_assignedAt = None\<rparr>"
  have v: "projectUpdateData now ?v project_P =
             project_P\<lparr>p_name := ''Survey 2'', p_status := ''planning'', p_assignedAt := None,
                       p_updatedAt := now\<rparr>"
    by (simp add: projectUpdateData_def project_P_def)
  have w: "projectUpdateData now ?w project_P =
             project_P\<lparr>p_status := ''completed'', p_assignedAt := None, p_updatedAt := now\<rparr>"
    by (simp add: projectUpdateData_def project_P_def)
  have r: "store_uuid id_P = Some id_P"
    by (simp add: store_uuid_valid uuid_ids lower_ids)
  have single: "fst (project_PUT zuuid datetime now id_P (Some rename_payload) store) =
     Success 200 (project_P\<lparr>p_name := ''Survey 2'', p_status := ''planning'', p_assignedAt := None,
                            p_updatedAt := now\<rparr>,
                  Some asset_A)"
    by (simp add: project_PUT_def uuid_ids parse_rename r stored_patch_without_asset update_P
        first_row_def v asset_of_P row_fields)
  have el: "bulk_element zuuid datetime (JObj [(''id'', JStr id_P), (''status'', JStr ''completed'')]) =
              Inr (JStr id_P, ?w)"
    by (simp add: bulk_element_def field_def truthy_def parse_status id_P_def)
  have bulk: "fst (projects_PUT zuuid datetime now (Some bulk_status_payload) store) =
     Success 200 [(project_P\<lparr>p_status := ''completed'', p_assignedAt := None, p_updatedAt := now\<rparr>,
                   Some asset_A)]"
    by (simp add: projects_PUT_def bulk_status_payload_def field_def el r stored_patch_without_asset
        update_P first_row_def w asset_of_P row_fields)
  show ?thesis
    using single bulk by (simp add: row_fields)
qed

subsection \<open>Coordinates\<close>

lemma z_text_path: "e \<in> set (z_text partial k v) \<Longrightarrow> i_path e = [k]"
  by (cases v; cases "the v") (auto simp: z_text_def split: if_splits)

lemma z_text_min1_path: "e \<in> set (z_text_min1 partial k msg v) \<Longrightarrow> i_path e = [k]"
  by (cases v; cases "the v") (auto simp: z_text_min1_def split: if_splits)

lemma z_text_nullish_path: "e \<in> set (z_text_nullish k v) \<Longrightarrow> i_path e = [k]"
  by (cases v; cases "the v") (auto simp: z_text_nullish_def split: if_splits)

lemma z_uuid_optional_path: "e \<in> set (fst (z_uuid_optional zuuid k msg v)) \<Longrightarrow> i_path e = [k]"
  by (cases v; cases "the v") (auto simp: z_uuid_optional_def split: if_splits)

lemma z_enum_path: "e \<in> set (fst (z_enum k allowed v)) \<Longrightarrow> i_path e = [k]"
  by (cases v; cases "the v") (auto simp: z_enum_def split: if_splits)

lemma coerceTimestamp_path: "e \<in> set (coerceTimestamp partial parseDate k v) \<Longrightarrow> i_path e = [k]"
  by (cases v; cases "the v") (auto simp: coerceTimestamp_def Let_def split: if_splits option.splits)

lemma z_date_object_path: "e \<in> set (z_date_object k v) \<Longrightarrow> i_path e = [k]"
  by (auto simp: z_date_object_def split: option.splits)

lemma z_location_numbers:
  "z_location partial (Some (JObj ls)) =
     z_coordinate ''lat'' 90 ''Latitude must be between -90 and 90'' (field ''lat'' ls) @
     z_coordinate ''lng'' 180 ''Longitude must be between -180 and 180'' (field ''lng'' ls)"
  by (simp add: z_location_def)

lemma z_coordinate_number:
  "0 \<le> bound \<Longrightarrow> z_coordinate k bound msg (Some (JNum x)) =
     (if x < - bound \<or> bound < x then [Issue [''location'', k] msg False] else [])"
  by (auto simp: z_coordinate_def)

lemma location_issues_in_schema:
  "set (z_location partial (field ''location'' ms)) \<subseteq> set (asset_schema_issues zuuid partial parseDate (JObj ms))"
  by (auto simp: asset_schema_issues_def)

lemma other_issue_paths:
  assumes "e \<in> set (asset_schema_issues zuuid partial parseDate (JObj ms))"
    and "e \<notin> set (z_location partial (field ''location'' ms))"
  shows "take 1 (i_path e) \<noteq> [''location'']"
  using assms
  by (auto simp: asset_schema_issues_def
      dest!: z_text_path z_text_min1_path z_text_nullish_path z_uuid_optional_path z_enum_path
        coerceTimestamp_path z_date_object_path split: if_splits)


lemma payload_issues:
  "asset_schema_issues zuuid False parseDate (asset_payload x y) =
     z_location False (Some (JObj [(''lat'', JNum x), (''lng'', JNum y)]))"
  by (simp add: asset_schema_issues_def asset_payload_def field_def z_uuid_optional_def
      z_text_min1_def z_text_def z_text_nullish_def z_enum_def coerceTimestamp_def z_date_object_def)

lemma location_only_issues:
  "asset_schema_issues zuuid True parseDate (JObj [(''location'', JObj [(''lat'', JNum x), (''lng'', JNum y)])]) =
     z_location True (Some (JObj [(''lat'', JNum x), (''lng'', JNum y)]))"
  by (simp add: asset_schema_issues_def field_def
      z_text_min1_def z_text_def z_text_nullish_def z_enum_def coerceTimestamp_def z_date_object_def)

lemma location_pair_issues:
  "z_location partial (Some (JObj [(''lat'', JNum x), (''lng'', JNum y)])) = [] \<longleftrightarrow>
     - 90 \<le> x \<and> x \<le> 90 \<and> - 180 \<le> y \<and> y \<le> 180"
  by (auto simp: z_location_numbers field_def z_coordinate_number)

text \<open>
  C9. For a payload whose location holds two numbers, on creation and on update alike:
  a latitude below -90 or above 90 raises the issue at \<^verbatim>\<open>location.lat\<close>, a longitude
  below -180 or above 180 the issue at \<^verbatim>\<open>location.lng\<close>; coordinates within the bounds,
  the bounds themselves included, raise no issue at the location. An otherwise complete
  payload is accepted exactly when both coordinates are within the bounds, and so is an
  update that holds only the location.
\<close>

theorem geo_validation:
  assumes "field ''location'' ms = Some (JObj ls)"
    and "field ''lat'' ls = Some (JNum x)" and "field ''lng'' ls = Some (JNum y)"
  shows "(x < - 90 \<or> 90 < x \<longrightarrow>
            Issue [''location'', ''lat''] ''Latitude must be between -90 and 90'' False
              \<in> set (asset_schema_issues zuuid partial parseDate (JObj ms))) \<and>
         (y < - 180 \<or> 180 < y \<longrightarrow>
            Issue [''location'', ''lng''] ''Longitude must be between -180 and 180'' False
              \<in> set (asset_schema_issues zuuid partial parseDate (JObj ms))) \<and>
         (- 90 \<le> x \<and> x \<le> 90 \<and> - 180 \<le> y \<and> y \<le> 180 \<longrightarrow>
            (\<forall>e \<in> set (asset_schema_issues zuuid partial parseDate (JObj ms)).
               take 1 (i_path e) \<noteq> [''location''])) \<and>
         (insertAssetSchema_issues zuuid parseDate (asset_payload x y) = [] \<longleftrightarrow>
            - 90 \<le> x \<and> x \<le> 90 \<and> - 180 \<le> y \<and> y \<le> 180) \<and>
         (updateAssetSchema_issues parseDate
              (JObj [(''location'', JObj [(''lat'', JNum x), (''lng'', JNum y)])]) = [] \<longleftrightarrow>
            - 90 \<le> x \<and> x \<le> 90 \<and> - 180 \<le> y \<and> y \<le> 180)"
proof -
  have loc: "z_location partial (field ''location'' ms) =
      (if x < - 90 \<or> 90 < x
       then [Issue [''location'', ''lat''] ''Latitude must be between -90 and 90'' False] else []) @
      (if y < - 180 \<or> 180 < y
       then [Issue [''location'', ''lng''] ''Longitude must be between -180 and 180'' False] else [])"
    by (simp add: assms z_location_numbers z_coordinate_number)
  have lat: "Issue [''location'', ''lat''] ''Latitude must be between -90 and 90'' False
              \<in> set (asset_schema_issues zuuid partial parseDate (JObj ms))" if "x < - 90 \<or> 90 < x"
    using that location_issues_in_schema[of partial ms zuuid parseDate] unfolding loc by auto
  have lng: "Issue [''location'', ''lng''] ''Longitude must be between -180 and 180'' False
              \<in> set (asset_schema_issues zuuid partial parseDate (JObj ms))" if "y < - 180 \<or> 180 < y"
    using that location_issues_in_schema[of partial ms zuuid parseDate] unfolding loc by auto
  have ok: "\<forall>e \<in> set (asset_schema_issues zuuid partial parseDate (JObj ms)).
               take 1 (i_path e) \<noteq> [''location'']"
    if "- 90 \<le> x \<and> x \<le> 90 \<and> - 180 \<le> y \<and> y \<le> 180"
  proof
    fix e assume e: "e \<in> set (asset_schema_issues zuuid partial parseDate (JObj ms))"
    from that have "z_location partial (field ''location'' ms) = []"
      unfolding loc by auto
    then have "e \<notin> set (z_location partial (field ''location'' ms))" by simp
    with e show "take 1 (i_path e) \<noteq> [''location'']" by (rule other_issue_paths)
  qed
  show ?thesis
    using lat lng ok
    by (simp add: insertAssetSchema_issues_def updateAssetSchema_issues_def payload_issues
        location_only_issues location_pair_issues)
qed

text \<open>
  Latitude 90 with longitude 180, and -90 with -180, are accepted; latitude 90.0001 and
  latitude -90.0001 are rejected with the latitude message, as is every number above 90
  or below -90.
\<close>

theorem geo_validation_witness:
  "field ''location'' (members_of (asset_payload 90 180)) =
     Some (JObj [(''lat'', JNum 90), (''lng'', JNum 180)]) \<and>
   field ''lat'' [(''lat'', JNum 90), (''lng'', JNum 180)] = Some (JNum 90) \<and>
   field ''lng'' [(''lat'', JNum 90), (''lng'', JNum 180)] = Some (JNum 180) \<and>
   insertAssetSchema_issues rfc_uuid no_date_strings (asset_payload 90 180) = [] \<and>
   insertAssetSchema_issues rfc_uuid no_date_strings (asset_payload (- 90) (- 180)) = [] \<and>
   updateAssetSchema_issues no_date_strings
     (JObj [(''location'', JObj [(''lat'', JNum (- 90)), (''lng'', JNum (- 180))])]) = [] \<and>
   ((90::real) < 90.0001) \<and> ((- 180.5::real) < - 180) \<and> ((- 90.0001::real) < - 90) \<and>
   Issue [''location'', ''lat''] ''Latitude must be between -90 and 90'' False
     \<in> set (insertAssetSchema_issues rfc_uuid no_date_strings (asset_payload 90.0001 (- 180.5))) \<and>
   Issue [''location'', ''lng''] ''Longitude must be between -180 and 180'' False
     \<in> set (insertAssetSchema_issues rfc_uuid no_date_strings (asset_payload 90.0001 (- 180.5))) \<and>
   Issue [''location'', ''lat''] ''Latitude must be between -90 and 90'' False
     \<in> set (insertAssetSchema_issues rfc_uuid no_date_strings (asset_payload (- 90.0001) 0))"
proof -
  have f: "field ''location'' (members_of (asset_payload x y)) =
     Some (JObj [(''lat'', JNum x), (''lng'', JNum y)])"
    "field ''lat'' [(''lat'', JNum x), (''lng'', JNum y)] = Some (JNum x)"
    "field ''lng'' [(''lat'', JNum x), (''lng'', JNum y)] = Some (JNum y)" for x y
    by (simp_all add: field_def members_of_def asset_payload_def)
  have m: "JObj (members_of (asset_payload x y)) = asset_payload x y" for x y
    by (simp add: members_of_def asset_payload_def)
  show ?thesis
    using geo_validation[OF f[of "90.0001" "- 180.5"], where partial = False and parseDate = no_date_strings and zuuid = rfc_uuid]
      geo_validation[OF f[of "- 90.0001" 0], where partial = False and parseDate = no_date_strings and zuuid = rfc_uuid]
      geo_validation[OF f[of 90 180], where partial = False and parseDate = no_date_strings and zuuid = rfc_uuid]
      geo_validation[OF f[of "- 90" "- 180"], where partial = False and parseDate = no_date_strings and zuuid = rfc_uuid]
      f[of 90 180]
    by (simp add: m insertAssetSchema_issues_def)
qed

subsection \<open>Creating a note\<close>





















end
